theory Spec2Isabelle
  imports Main
begin

section \<open>Shared values: JSON and decimal rendering\<close>

text \<open>
  Both clients exchange JSON with the backend. A JSON object is the dictionary the
  platform's parser produced, kept as an association list and read with \<open>map_of\<close>.
  Numbers are opaque to both clients; integers stand for them here.
\<close>

datatype json_value =
    JNull
  | JBool bool
  | JNumber int
  | JString string
  | JArray "json_value list"
  | JObject "(string \<times> json_value) list"

text \<open>
  String interpolation of a number (\<^verbatim>\<open>"\(statusCode)"\<close> in Swift,
  \<^verbatim>\<open>`${response.status}`\<close> in TypeScript) renders it in decimal.
\<close>

definition digit_char :: "nat \<Rightarrow> char" where
  "digit_char d = ''0123456789'' ! (d mod 10)"

function show_nat :: "nat \<Rightarrow> string" where
  "show_nat n = (if n < 10 then [digit_char n] else show_nat (n div 10) @ [digit_char n])"
  by pat_completeness auto
termination
  by (relation "measure (\<lambda>n. n)") auto

declare show_nat.simps [simp del]

definition show_int :: "int \<Rightarrow> string" where
  "show_int i = (if i < 0 then CHR ''-'' # show_nat (nat (- i)) else show_nat (nat i))"

section \<open>The iOS client: TokenService\<close>

subsection \<open>Data\<close>

record ConnectionDetails =
  serverUrl :: string
  roomName :: string
  participantName :: string
  participantToken :: string

record BackendResponse =
  session_id :: string
  room_name :: string
  livekit_token :: string
  livekit_url :: string
  agent_type :: string
  user_id :: string

datatype TokenServiceError =
    authenticationFailed
  | backendError string
  | invalidResponse

fun errorDescription :: "TokenServiceError \<Rightarrow> string" where
  "errorDescription authenticationFailed = ''Failed to authenticate with Clerk''"
| "errorDescription (backendError message) = ''Backend error: '' @ message"
| "errorDescription invalidResponse = ''Invalid response from backend''"

text \<open>
  What \<^verbatim>\<open>JSONDecoder().decode(BackendResponse.self, from:)\<close> can throw: the bytes
  are not JSON, the top level is not a dictionary, a key is absent, a value is null, or a
  value is not a string.
\<close>

datatype DecodingError =
    dataCorrupted
  | typeMismatch string
  | keyNotFound string
  | valueNotFound string

text \<open>
  The bytes of a response body. \<open>URLError\<close> is the error with which
  \<^verbatim>\<open>URLSession.shared.data(for:)\<close> fails, carrying its own description.
\<close>

type_synonym Data = "char list"

datatype URLError = URLError string

datatype URLResponse =
    HTTPURLResponse (statusCode: int)
  | OtherURLResponse

record URLRequest =
  url :: string
  httpMethod :: string
  allHTTPHeaderFields :: "(string \<times> string) list"
  httpBody :: json_value

text \<open>
  Everything a call can end with. \<open>Throws\<close> carries the Swift error that reaches the
  caller: one of the service's own, the transport's, or the decoder's. \<open>Traps\<close> is the
  force unwrap \<^verbatim>\<open>URL(string: ...)!\<close> finding nil, which stops the process instead of throwing.
\<close>

datatype SwiftError =
    ServiceError TokenServiceError
  | TransportError URLError
  | DecodeError DecodingError

datatype 'a Outcome =
    Returns 'a
  | Throws SwiftError
  | Traps

subsection \<open>The platform the service calls into\<close>

text \<open>
  Clerk's token resource as the service reads it: its \<open>jwt\<close> property through optional
  chaining. \<open>getToken\<close> of a session either throws Clerk's own error (\<open>Inl\<close>), which
  carries its description, or returns an optional resource.
\<close>

record TokenResource =
  jwt :: "string option"

datatype ClerkError = ClerkError string

record ClerkSession =
  getToken :: "ClerkError + TokenResource option"

text \<open>
  The calls that leave the repository: Clerk's shared session, key-value lookup of
  \<^verbatim>\<open>"token"\<close> on the resource, Foundation's URL parser, the shared URL session,
  UTF-8 decoding of bytes and the JSON parser.
\<close>

record Platform =
  clerk_session :: "ClerkSession option"
  value_forKey_token :: "TokenResource option \<Rightarrow> string option"
  url_parses :: "string \<Rightarrow> bool"
  urlsession_data :: "URLRequest \<Rightarrow> URLError + (Data \<times> URLResponse)"
  string_utf8 :: "Data \<Rightarrow> string option"
  json_parse :: "Data \<Rightarrow> json_value option"

text \<open>The external calls of one invocation, in the order they are made.\<close>

datatype Event =
    GetClerkSessionToken
  | URLSessionData URLRequest
  | JSONDecode Data

fun is_request :: "Event \<Rightarrow> bool" where
  "is_request (URLSessionData r) = True"
| "is_request e = False"

subsection \<open>apiBaseUrl\<close>

text \<open>
  \<^verbatim>\<open>trimmingCharacters(in:)\<close> removes the characters of the set from both ends;
  \<^verbatim>\<open>hasSuffix\<close> and \<^verbatim>\<open>dropLast\<close> are Swift's.
\<close>

definition trimmingCharacters :: "char set \<Rightarrow> string \<Rightarrow> string" where
  "trimmingCharacters cs s =
     rev (dropWhile (\<lambda>c. c \<in> cs) (rev (dropWhile (\<lambda>c. c \<in> cs) s)))"

definition hasSuffix :: "string \<Rightarrow> string \<Rightarrow> bool" where
  "hasSuffix s suf =
     (length suf \<le> length s \<and> drop (length s - length suf) s = suf)"

definition dropLast :: "string \<Rightarrow> string" where
  "dropLast s = take (length s - 1) s"

text \<open>
  The stored property: the \<open>ApiBaseUrl\<close> entry of Info.plist when it is a string, with
  double quotes trimmed, and the fallback otherwise.
\<close>

definition apiBaseUrl_init :: "string option \<Rightarrow> string" where
  "apiBaseUrl_init infoPlist =
     (case infoPlist of
        Some u \<Rightarrow> trimmingCharacters {CHR 0x22} u
      | None \<Rightarrow> ''https://d95f3ba12854.ngrok-free.app/'')"

record TokenService =
  apiBaseUrl :: string

subsection \<open>getClerkSessionToken\<close>

definition getClerkSessionToken :: "Platform \<Rightarrow> string option" where
  "getClerkSessionToken env =
     (case clerk_session env of
        None \<Rightarrow> None
      | Some session \<Rightarrow>
          (case getToken session of
             Inl thrown \<Rightarrow> None
           | Inr tokenResource \<Rightarrow>
               (case (case tokenResource of None \<Rightarrow> None | Some t \<Rightarrow> jwt t) of
                  Some tokenString \<Rightarrow> Some tokenString
                | None \<Rightarrow>
                    (case value_forKey_token env tokenResource of
                       Some tokenString \<Rightarrow> Some tokenString
                     | None \<Rightarrow> None))))"

subsection \<open>Decoding the backend response\<close>

text \<open>
  The synthesised \<open>Codable\<close> decoding of a struct whose properties are all non-optional
  strings: each key is read in declaration order; extra keys are ignored.
\<close>

definition decode_string :: "(string \<times> json_value) list \<Rightarrow> string \<Rightarrow> DecodingError + string" where
  "decode_string dict key =
     (case map_of dict key of
        None \<Rightarrow> Inl (keyNotFound key)
      | Some JNull \<Rightarrow> Inl (valueNotFound key)
      | Some (JString s) \<Rightarrow> Inr s
      | Some other \<Rightarrow> Inl (typeMismatch key))"

definition and_then :: "'e + 'a \<Rightarrow> ('a \<Rightarrow> 'e + 'b) \<Rightarrow> 'e + 'b" where
  "and_then r f = (case r of Inl e \<Rightarrow> Inl e | Inr v \<Rightarrow> f v)"

definition decode_BackendResponse :: "json_value \<Rightarrow> DecodingError + BackendResponse" where
  "decode_BackendResponse j =
     (case j of
        JObject dict \<Rightarrow>
          and_then (decode_string dict ''session_id'') (\<lambda>v1.
          and_then (decode_string dict ''room_name'') (\<lambda>v2.
          and_then (decode_string dict ''livekit_token'') (\<lambda>v3.
          and_then (decode_string dict ''livekit_url'') (\<lambda>v4.
          and_then (decode_string dict ''agent_type'') (\<lambda>v5.
          and_then (decode_string dict ''user_id'') (\<lambda>v6.
            Inr \<lparr>session_id = v1, room_name = v2, livekit_token = v3,
                 livekit_url = v4, agent_type = v5, user_id = v6\<rparr>))))))
      | other \<Rightarrow> Inl (typeMismatch []))"

definition JSONDecoder_decode :: "Platform \<Rightarrow> Data \<Rightarrow> DecodingError + BackendResponse" where
  "JSONDecoder_decode env d =
     (case json_parse env d of
        None \<Rightarrow> Inl dataCorrupted
      | Some j \<Rightarrow> decode_BackendResponse j)"

subsection \<open>fetchConnectionDetailsFromBackend and fetchConnectionDetails\<close>

text \<open>
  The request body is the dictionary literal of the source; serialising it is the
  platform's, and this dictionary is always serialisable, so that \<^verbatim>\<open>try\<close> never throws.
\<close>

definition body :: json_value where
  "body = JObject [(''agent_type'', JString ''main_zeno''),
                   (''session_type'', JString ''ios''),
                   (''initial_context'', JObject [])]"

definition cleanBaseUrl :: "TokenService \<Rightarrow> string" where
  "cleanBaseUrl svc =
     (if hasSuffix (apiBaseUrl svc) ''/'' then dropLast (apiBaseUrl svc) else apiBaseUrl svc)"

definition request_for :: "TokenService \<Rightarrow> string \<Rightarrow> URLRequest" where
  "request_for svc clerkToken =
     \<lparr>url = cleanBaseUrl svc @ ''/agent/session/create'',
      httpMethod = ''POST'',
      allHTTPHeaderFields =
        [(''Content-Type'', ''application/json''),
         (''Authorization'', ''Bearer '' @ clerkToken)],
      httpBody = body\<rparr>"

definition fetchConnectionDetailsFromBackend ::
  "TokenService \<Rightarrow> Platform \<Rightarrow> string \<Rightarrow> ConnectionDetails Outcome \<times> Event list" where
  "fetchConnectionDetailsFromBackend svc env clerkToken =
     (if \<not> url_parses env (cleanBaseUrl svc @ ''/agent/session/create'') then (Traps, [])
      else
        let request = request_for svc clerkToken in
        case urlsession_data env request of
          Inl e \<Rightarrow> (Throws (TransportError e), [URLSessionData request])
        | Inr (dat, response) \<Rightarrow>
            (case response of
               OtherURLResponse \<Rightarrow>
                 (Throws (ServiceError (backendError ''Invalid response'')),
                  [URLSessionData request])
             | HTTPURLResponse code \<Rightarrow>
                 if \<not> (200 \<le> code \<and> code \<le> 299) then
                   let errorMessage =
                         (case string_utf8 env dat of Some s \<Rightarrow> s | None \<Rightarrow> ''Unknown error'')
                   in (Throws (ServiceError
                         (backendError (''HTTP '' @ show_int code @ '': '' @ errorMessage))),
                       [URLSessionData request])
                 else
                   (case JSONDecoder_decode env dat of
                      Inl e \<Rightarrow>
                        (Throws (DecodeError e), [URLSessionData request, JSONDecode dat])
                    | Inr backendResponse \<Rightarrow>
                        (Returns \<lparr>serverUrl = livekit_url backendResponse,
                                  roomName = room_name backendResponse,
                                  participantName = ''user'',
                                  participantToken = livekit_token backendResponse\<rparr>,
                         [URLSessionData request, JSONDecode dat]))))"

text \<open>
  The two arguments are part of the signature and are not read by the body. The actor
  stores only the immutable \<open>apiBaseUrl\<close>, so a call has no state to return.
\<close>

definition fetchConnectionDetails ::
  "TokenService \<Rightarrow> Platform \<Rightarrow> string \<Rightarrow> string \<Rightarrow> ConnectionDetails Outcome \<times> Event list" where
  "fetchConnectionDetails svc env room participant =
     (case getClerkSessionToken env of
        None \<Rightarrow> (Throws (ServiceError authenticationFailed), [GetClerkSessionToken])
      | Some clerkToken \<Rightarrow>
          (case fetchConnectionDetailsFromBackend svc env clerkToken of
             (backendDetails, events) \<Rightarrow> (backendDetails, GetClerkSessionToken # events)))"

section \<open>The web client: TestBackend\<close>

subsection \<open>Data\<close>

record ApiResponse =
  success :: bool
  data :: "json_value option"
  error :: "string option"

text \<open>
  An error object: what \<^verbatim>\<open>fetch\<close>, \<^verbatim>\<open>response.text()\<close> and \<^verbatim>\<open>response.json()\<close>
  reject with, and what \<^verbatim>\<open>throw new Error(...)\<close> throws. Its \<open>message\<close> property is a
  string or is undefined.
\<close>

datatype JsError = JsError (message: "string option")

text \<open>
  The value that reaches \<^verbatim>\<open>catch (error: any)\<close>. A promise of the identity provider
  can reject with any value: null, undefined, or a value whose \<open>message\<close> property can be
  read (an error object, or a primitive, on which the property is undefined).
\<close>

datatype JsThrown = ThrownNull | ThrownUndefined | ThrownValue JsError

text \<open>
  A \<^verbatim>\<open>Response\<close> as the component reads it: its status, and what its \<^verbatim>\<open>text()\<close>
  and \<^verbatim>\<open>json()\<close> promises settle to (\<open>Inl\<close> when they reject).
\<close>

record Response =
  status :: nat
  text_result :: "JsError + string"
  json_result :: "JsError + json_value"

definition ok :: "Response \<Rightarrow> bool" where
  "ok r = (200 \<le> status r \<and> status r \<le> 299)"

record FetchCall =
  fetch_input :: string
  fetch_method :: string
  fetch_headers :: "(string \<times> string) list"

text \<open>
  What the component calls into: the build-time variable \<^verbatim>\<open>VITE_API_BASE_URL\<close>
  (undefined or a string), Clerk's \<^verbatim>\<open>getToken\<close> (rejects, or resolves to a string or
  null) and \<^verbatim>\<open>fetch\<close> (rejects on a transport failure, resolves to a response otherwise).
  Each field is what the promise settles to; a promise that never settles is the subject
  of \<open>testApi_invocation\<close> below.
\<close>

record Browser =
  VITE_API_BASE_URL :: "string option"
  useAuth_getToken :: "JsThrown + string option"
  fetch :: "FetchCall \<Rightarrow> JsError + Response"

record ComponentState =
  loading :: bool
  response :: "ApiResponse option"
  endpoint :: string

text \<open>The external calls and the state setters of one invocation, in order.\<close>

datatype WebEvent =
    GetToken
  | Fetch FetchCall
  | ResponseText
  | ResponseJson
  | SetLoading bool
  | SetResponse "ApiResponse option"

fun is_fetch :: "WebEvent \<Rightarrow> bool" where
  "is_fetch (Fetch c) = True"
| "is_fetch e = False"

fun is_error_message :: "WebEvent \<Rightarrow> bool" where
  "is_error_message (SetResponse (Some r)) = (\<not> success r \<and> error r \<noteq> None)"
| "is_error_message e = False"

subsection \<open>testApi\<close>

text \<open>\<^verbatim>\<open>a || b\<close> on an optional string: \<open>b\<close> when \<open>a\<close> is undefined, null or empty.\<close>

definition or_else :: "string option \<Rightarrow> string \<Rightarrow> string" where
  "or_else a b = (case a of None \<Rightarrow> b | Some s \<Rightarrow> if s = [] then b else s)"

definition web_apiBaseUrl :: "Browser \<Rightarrow> string" where
  "web_apiBaseUrl env = or_else (VITE_API_BASE_URL env) ''http://localhost:8000''"

definition fetch_call :: "Browser \<Rightarrow> string \<Rightarrow> string \<Rightarrow> FetchCall" where
  "fetch_call env ep token =
     \<lparr>fetch_input = web_apiBaseUrl env @ ep,
      fetch_method = ''GET'',
      fetch_headers = [(''Authorization'', ''Bearer '' @ token),
                 (''Content-Type'', ''application/json'')]\<rparr>"

text \<open>
  The body of the \<^verbatim>\<open>try\<close> block: \<open>Inl\<close> is the value that reaches \<^verbatim>\<open>catch\<close>,
  \<open>Inr\<close> the parsed payload.
\<close>

definition testApi_try :: "Browser \<Rightarrow> string \<Rightarrow> (JsThrown + json_value) \<times> WebEvent list" where
  "testApi_try env ep =
     (case useAuth_getToken env of
        Inl thrown \<Rightarrow> (Inl thrown, [GetToken])
      | Inr None \<Rightarrow>
          (Inl (ThrownValue (JsError (Some ''No auth token available''))), [GetToken])
      | Inr (Some token) \<Rightarrow>
          (if token = [] then
             (Inl (ThrownValue (JsError (Some ''No auth token available''))), [GetToken])
           else
            (let call = fetch_call env ep token in
             (case fetch env call of
                Inl e \<Rightarrow> (Inl (ThrownValue e), [GetToken, Fetch call])
              | Inr resp \<Rightarrow>
                  (if \<not> ok resp then
                     (case text_result resp of
                        Inl e \<Rightarrow> (Inl (ThrownValue e), [GetToken, Fetch call, ResponseText])
                      | Inr errorText \<Rightarrow>
                          (Inl (ThrownValue (JsError (Some
                             (''HTTP '' @ show_nat (status resp) @ '': '' @ errorText)))),
                           [GetToken, Fetch call, ResponseText]))
                   else
                     (case json_result resp of
                        Inl e \<Rightarrow> (Inl (ThrownValue e), [GetToken, Fetch call, ResponseJson])
                      | Inr d \<Rightarrow> (Inr d, [GetToken, Fetch call, ResponseJson])))))))"

text \<open>
  Reading \<^verbatim>\<open>error.message\<close> in the \<^verbatim>\<open>catch\<close> block when \<open>error\<close> is null or undefined
  throws a TypeError; its wording is the engine's, and V8's is used here.
\<close>

definition TypeError_reading_message :: "string \<Rightarrow> JsError" where
  "TypeError_reading_message of_what =
     JsError (Some (''Cannot read properties of '' @ of_what @
                    '' (reading '' @ [CHR 0x27] @ ''message'' @ [CHR 0x27] @ '')''))"

text \<open>
  The whole function, when every promise it awaits settles: the two setters, the
  \<^verbatim>\<open>try\<close> block, then \<^verbatim>\<open>catch\<close> or the success setter, then \<^verbatim>\<open>finally\<close>. The
  \<^verbatim>\<open>catch\<close> block reads \<^verbatim>\<open>error.message\<close> with no guard: on null or undefined that
  read throws, \<^verbatim>\<open>setResponse\<close> is not reached, \<^verbatim>\<open>finally\<close> still runs and the
  TypeError leaves the function. The first component is what the caller's promise settles
  to: \<open>Inr ()\<close> when it resolves, \<open>Inl\<close> when it rejects.
\<close>

definition testApi ::
  "Browser \<Rightarrow> string \<Rightarrow> ComponentState \<Rightarrow> (JsError + unit) \<times> ComponentState \<times> WebEvent list" where
  "testApi env ep st =
     (let st1 = st\<lparr>loading := True\<rparr>;
          st2 = st1\<lparr>response := None\<rparr>
      in case testApi_try env ep of
           (Inr d, events) \<Rightarrow>
             let r = \<lparr>success = True, data = Some d, error = None\<rparr>;
                 st3 = st2\<lparr>response := Some r\<rparr>
             in (Inr (), st3\<lparr>loading := False\<rparr>,
                 [SetLoading True, SetResponse None] @ events @
                 [SetResponse (Some r), SetLoading False])
         | (Inl ThrownNull, events) \<Rightarrow>
             (Inl (TypeError_reading_message ''null''), st2\<lparr>loading := False\<rparr>,
              [SetLoading True, SetResponse None] @ events @ [SetLoading False])
         | (Inl ThrownUndefined, events) \<Rightarrow>
             (Inl (TypeError_reading_message ''undefined''), st2\<lparr>loading := False\<rparr>,
              [SetLoading True, SetResponse None] @ events @ [SetLoading False])
         | (Inl (ThrownValue e), events) \<Rightarrow>
             let r = \<lparr>success = False, data = None,
                      error = Some (or_else (message e) ''Unknown error occurred'')\<rparr>;
                 st3 = st2\<lparr>response := Some r\<rparr>
             in (Inr (), st3\<lparr>loading := False\<rparr>,
                 [SetLoading True, SetResponse None] @ events @
                 [SetResponse (Some r), SetLoading False]))"

subsection \<open>An invocation whose promises need not settle\<close>

text \<open>
  testApi awaits up to three promises: \<^verbatim>\<open>getToken()\<close>, \<^verbatim>\<open>fetch(...)\<close>, and
  \<^verbatim>\<open>response.text()\<close> or \<^verbatim>\<open>response.json()\<close>. There is no timeout and no
  cancellation: at an awaited promise that never settles the function stays suspended, the
  promise it returned stays pending, and the component keeps the state written so far.
\<close>

datatype Await = AwaitGetToken | AwaitFetch | AwaitText | AwaitJson

datatype Completion = Resolved | Rejected JsError | Pending

fun awaited :: "WebEvent \<Rightarrow> Await option" where
  "awaited GetToken = Some AwaitGetToken"
| "awaited (Fetch c) = Some AwaitFetch"
| "awaited ResponseText = Some AwaitText"
| "awaited ResponseJson = Some AwaitJson"
| "awaited (SetLoading b) = None"
| "awaited (SetResponse r) = None"

fun apply_event :: "ComponentState \<Rightarrow> WebEvent \<Rightarrow> ComponentState" where
  "apply_event st (SetLoading b) = st\<lparr>loading := b\<rparr>"
| "apply_event st (SetResponse r) = st\<lparr>response := r\<rparr>"
| "apply_event st e = st"

text \<open>
  The events of a run up to and including the first call whose promise never settles, and
  whether there is such a call.
\<close>

fun until_pending :: "(Await \<Rightarrow> bool) \<Rightarrow> WebEvent list \<Rightarrow> WebEvent list \<times> bool" where
  "until_pending settles [] = ([], False)"
| "until_pending settles (e # es) =
     (if (case awaited e of None \<Rightarrow> True | Some a \<Rightarrow> settles a)
      then (e # fst (until_pending settles es), snd (until_pending settles es))
      else ([e], True))"

text \<open>
  One invocation, given which awaited promises settle: it runs as \<open>testApi\<close> does while
  they settle, and stops for good at the first one that does not.
\<close>

definition testApi_invocation ::
  "(Await \<Rightarrow> bool) \<Rightarrow> Browser \<Rightarrow> string \<Rightarrow> ComponentState \<Rightarrow>
     Completion \<times> ComponentState \<times> WebEvent list" where
  "testApi_invocation settles env ep st =
     (case testApi env ep st of
        (result, st', events) \<Rightarrow>
          (if snd (until_pending settles events)
           then (Pending,
                 foldl apply_event st (fst (until_pending settles events)),
                 fst (until_pending settles events))
           else ((case result of Inr u \<Rightarrow> Resolved | Inl e \<Rightarrow> Rejected e), st', events)))"

subsection \<open>The endpoint selector\<close>

record EndpointOption =
  path :: string
  label :: string

definition endpoints :: "EndpointOption list" where
  "endpoints =
     [\<lparr>path = ''/user/test-auth'', label = ''Test Auth''\<rparr>,
      \<lparr>path = ''/user/me'', label = ''Get Profile''\<rparr>,
      \<lparr>path = ''/user/tasks'', label = ''Get Tasks''\<rparr>,
      \<lparr>path = ''/user/briefings'', label = ''Get Briefings''\<rparr>,
      \<lparr>path = ''/user/sessions'', label = ''Get Sessions''\<rparr>]"

text \<open>
  The component's initial state, and its two user actions: choosing the i-th option of
  the select element, and pressing the button (disabled while loading) with the browser
  as it is at that moment.
\<close>

definition initial_state :: ComponentState where
  "initial_state = \<lparr>loading = False, response = None, endpoint = ''/user/test-auth''\<rparr>"

datatype UiAction = SelectOption nat | ClickTest Browser

fun ui_step :: "ComponentState \<Rightarrow> UiAction \<Rightarrow> ComponentState" where
  "ui_step st (SelectOption i) =
     (if i < length endpoints then st\<lparr>endpoint := path (endpoints ! i)\<rparr> else st)"
| "ui_step st (ClickTest env) =
     (if loading st then st else fst (snd (testApi env (endpoint st) st)))"

definition ui_run :: "UiAction list \<Rightarrow> ComponentState" where
  "ui_run actions = foldl ui_step initial_state actions"

section \<open>Names used in the statements, and sample inputs\<close>

definition BackendResponse_keys :: "string list" where
  "BackendResponse_keys =
     [''session_id'', ''room_name'', ''livekit_token'', ''livekit_url'', ''agent_type'', ''user_id'']"

definition body_keys :: "string list" where
  "body_keys = [''agent_type'', ''session_type'', ''initial_context'']"

definition endpoint_paths :: "string list" where
  "endpoint_paths =
     [''/user/test-auth'', ''/user/me'', ''/user/tasks'', ''/user/briefings'', ''/user/sessions'']"

fun throws_service_error :: "'a Outcome \<Rightarrow> bool" where
  "throws_service_error (Throws (ServiceError e)) = True"
| "throws_service_error r = False"

text \<open>
  A service configured by the fallback URL, one configured with a URL that ends in two
  slashes, and platforms that differ in what Clerk and the transport answer.
\<close>

definition sample_service :: TokenService where
  "sample_service = \<lparr>apiBaseUrl = apiBaseUrl_init None\<rparr>"

definition double_slash_service :: TokenService where
  "double_slash_service = \<lparr>apiBaseUrl = apiBaseUrl_init (Some ''https://api.example.com//'')\<rparr>"

definition sample_payload :: Data where
  \<open>sample_payload = ''{"session_id":"s1","room_name":"room-1","livekit_token":"lk-1","livekit_url":"wss://lk.example","agent_type":"main_zeno","user_id":"u1"}''\<close>

definition sample_json :: json_value where
  "sample_json = JObject
     [(''session_id'', JString ''s1''), (''room_name'', JString ''room-1''),
      (''livekit_token'', JString ''lk-1''), (''livekit_url'', JString ''wss://lk.example''),
      (''agent_type'', JString ''main_zeno''), (''user_id'', JString ''u1'')]"

definition sample_session :: ClerkSession where
  "sample_session = \<lparr>getToken = Inr (Some \<lparr>jwt = Some ''jwt-1''\<rparr>)\<rparr>"

definition platform_with ::
  "ClerkSession option \<Rightarrow> (URLError + (Data \<times> URLResponse)) \<Rightarrow> Platform" where
  "platform_with session reply =
     \<lparr>clerk_session = session,
      value_forKey_token = (\<lambda>t. None),
      url_parses = (\<lambda>s. True),
      urlsession_data = (\<lambda>r. reply),
      string_utf8 = (\<lambda>d. Some d),
      json_parse = (\<lambda>d. if d = sample_payload then Some sample_json else None)\<rparr>"

definition platform_ok :: Platform where
  "platform_ok = platform_with (Some sample_session) (Inr (sample_payload, HTTPURLResponse 200))"

definition platform_404 :: Platform where
  "platform_404 = platform_with (Some sample_session) (Inr (''Not Found'', HTTPURLResponse 404))"

definition platform_offline :: Platform where
  "platform_offline = platform_with (Some sample_session) (Inl (URLError ''offline''))"




text \<open>Browsers that differ in what Clerk and \<^verbatim>\<open>fetch\<close> answer, and three responses.\<close>

definition browser_with :: "(JsThrown + string option) \<Rightarrow> (JsError + Response) \<Rightarrow> Browser" where
  "browser_with token reply =
     \<lparr>VITE_API_BASE_URL = None, useAuth_getToken = token, fetch = (\<lambda>c. reply)\<rparr>"

text \<open>Every awaited promise settles; or every one but that of \<^verbatim>\<open>fetch\<close>.\<close>

definition all_settle :: "Await \<Rightarrow> bool" where
  "all_settle a = True"

fun fetch_hangs :: "Await \<Rightarrow> bool" where
  "fetch_hangs AwaitFetch = False"
| "fetch_hangs a = True"

definition response_200 :: Response where
  "response_200 = \<lparr>status = 200, text_result = Inr ''[]'', json_result = Inr (JArray [])\<rparr>"

definition response_204 :: Response where
  "response_204 = \<lparr>status = 204, text_result = Inr [],
                    json_result = Inl (JsError (Some ''Unexpected end of JSON input''))\<rparr>"

definition response_401 :: Response where
  "response_401 = \<lparr>status = 401, text_result = Inr ''Unauthorized'',
                    json_result = Inl (JsError (Some ''Unexpected token U in JSON''))\<rparr>"

section \<open>Facts about the iOS client\<close>

lemma decode_string_Inr:
  "decode_string dict k = Inr s \<longleftrightarrow> map_of dict k = Some (JString s)"
  by (auto simp: decode_string_def split: option.splits json_value.splits)

lemma and_then_Inr: "and_then r f = Inr b \<longleftrightarrow> (\<exists>a. r = Inr a \<and> f a = Inr b)"
  by (cases r) (auto simp: and_then_def)

lemma decode_BackendResponse_Inr:
  "decode_BackendResponse j = Inr r \<longleftrightarrow>
     (\<exists>dict. j = JObject dict \<and>
        map_of dict ''session_id'' = Some (JString (session_id r)) \<and>
        map_of dict ''room_name'' = Some (JString (room_name r)) \<and>
        map_of dict ''livekit_token'' = Some (JString (livekit_token r)) \<and>
        map_of dict ''livekit_url'' = Some (JString (livekit_url r)) \<and>
        map_of dict ''agent_type'' = Some (JString (agent_type r)) \<and>
        map_of dict ''user_id'' = Some (JString (user_id r)))"
  apply (cases j)
  apply (simp_all add: decode_BackendResponse_def and_then_Inr decode_string_Inr)
  apply (cases r)
  apply auto
  done

lemma JSONDecoder_decode_Inr:
  "JSONDecoder_decode env dat = Inr r \<longleftrightarrow>
     (\<exists>dict. json_parse env dat = Some (JObject dict) \<and>
        map_of dict ''session_id'' = Some (JString (session_id r)) \<and>
        map_of dict ''room_name'' = Some (JString (room_name r)) \<and>
        map_of dict ''livekit_token'' = Some (JString (livekit_token r)) \<and>
        map_of dict ''livekit_url'' = Some (JString (livekit_url r)) \<and>
        map_of dict ''agent_type'' = Some (JString (agent_type r)) \<and>
        map_of dict ''user_id'' = Some (JString (user_id r)))"
  by (cases "json_parse env dat") (simp_all add: JSONDecoder_decode_def decode_BackendResponse_Inr)

lemma decodes_iff_all_keys:
  "(\<exists>r. JSONDecoder_decode env dat = Inr r) \<longleftrightarrow>
     (\<exists>dict. json_parse env dat = Some (JObject dict) \<and>
        (\<forall>k \<in> set BackendResponse_keys. \<exists>s. map_of dict k = Some (JString s)))"
proof
  assume "\<exists>r. JSONDecoder_decode env dat = Inr r"
  then show "\<exists>dict. json_parse env dat = Some (JObject dict) \<and>
        (\<forall>k \<in> set BackendResponse_keys. \<exists>s. map_of dict k = Some (JString s))"
    by (auto simp: JSONDecoder_decode_Inr BackendResponse_keys_def)
next
  assume "\<exists>dict. json_parse env dat = Some (JObject dict) \<and>
        (\<forall>k \<in> set BackendResponse_keys. \<exists>s. map_of dict k = Some (JString s))"
  then obtain dict v1 v2 v3 v4 v5 v6 where d: "json_parse env dat = Some (JObject dict)"
    and k: "map_of dict ''session_id'' = Some (JString v1)"
       "map_of dict ''room_name'' = Some (JString v2)"
       "map_of dict ''livekit_token'' = Some (JString v3)"
       "map_of dict ''livekit_url'' = Some (JString v4)"
       "map_of dict ''agent_type'' = Some (JString v5)"
       "map_of dict ''user_id'' = Some (JString v6)"
    by (auto simp: BackendResponse_keys_def)
  have "JSONDecoder_decode env dat = Inr \<lparr>session_id = v1, room_name = v2, livekit_token = v3,
                 livekit_url = v4, agent_type = v5, user_id = v6\<rparr>"
    using d k by (simp add: JSONDecoder_decode_Inr)
  then show "\<exists>r. JSONDecoder_decode env dat = Inr r" by blast
qed


lemma backend_transport_failure:
  "url_parses env (url (request_for svc tok)) \<Longrightarrow>
   urlsession_data env (request_for svc tok) = Inl e \<Longrightarrow>
     fetchConnectionDetailsFromBackend svc env tok =
       (Throws (TransportError e), [URLSessionData (request_for svc tok)])"
  by (simp add: fetchConnectionDetailsFromBackend_def request_for_def)


lemma backend_non_2xx:
  "url_parses env (url (request_for svc tok)) \<Longrightarrow>
   urlsession_data env (request_for svc tok) = Inr (dat, HTTPURLResponse code) \<Longrightarrow>
   \<not> (200 \<le> code \<and> code \<le> 299) \<Longrightarrow>
     fetchConnectionDetailsFromBackend svc env tok =
       (Throws (ServiceError (backendError (''HTTP '' @ show_int code @ '': '' @
          (case string_utf8 env dat of Some s \<Rightarrow> s | None \<Rightarrow> ''Unknown error'')))),
        [URLSessionData (request_for svc tok)])"
  by (simp add: fetchConnectionDetailsFromBackend_def request_for_def)

lemma backend_2xx:
  "url_parses env (url (request_for svc tok)) \<Longrightarrow>
   urlsession_data env (request_for svc tok) = Inr (dat, HTTPURLResponse code) \<Longrightarrow>
   200 \<le> code \<Longrightarrow> code \<le> 299 \<Longrightarrow>
     fetchConnectionDetailsFromBackend svc env tok =
       ((case JSONDecoder_decode env dat of
           Inl e \<Rightarrow> Throws (DecodeError e)
         | Inr r \<Rightarrow> Returns \<lparr>serverUrl = livekit_url r, roomName = room_name r,
                             participantName = ''user'', participantToken = livekit_token r\<rparr>),
        [URLSessionData (request_for svc tok), JSONDecode dat])"
  by (simp add: fetchConnectionDetailsFromBackend_def request_for_def split: sum.splits)

lemma backend_returns:
  assumes "fetchConnectionDetailsFromBackend svc env tok = (Returns d, events)"
  shows "\<exists>dat code r. url_parses env (url (request_for svc tok)) \<and>
           urlsession_data env (request_for svc tok) = Inr (dat, HTTPURLResponse code) \<and>
           200 \<le> code \<and> code \<le> 299 \<and> JSONDecoder_decode env dat = Inr r \<and>
           d = \<lparr>serverUrl = livekit_url r, roomName = room_name r,
                 participantName = ''user'', participantToken = livekit_token r\<rparr> \<and>
           events = [URLSessionData (request_for svc tok), JSONDecode dat]"
  using assms
  by (auto simp: fetchConnectionDetailsFromBackend_def request_for_def Let_def
           split: if_splits sum.splits prod.splits URLResponse.splits)

lemma backend_requests:
  "filter is_request (snd (fetchConnectionDetailsFromBackend svc env tok)) =
     (if url_parses env (url (request_for svc tok))
      then [URLSessionData (request_for svc tok)] else [])"
  by (auto simp: fetchConnectionDetailsFromBackend_def request_for_def Let_def
           split: if_splits sum.splits prod.splits URLResponse.splits)

lemma cleanBaseUrl_cases:
  "apiBaseUrl svc = cleanBaseUrl svc \<or> apiBaseUrl svc = cleanBaseUrl svc @ ''/''"
proof (cases "hasSuffix (apiBaseUrl svc) ''/''")
  case False
  then show ?thesis by (simp add: cleanBaseUrl_def)
next
  case True
  then have d: "drop (length (apiBaseUrl svc) - 1) (apiBaseUrl svc) = ''/''"
    by (simp add: hasSuffix_def)
  have "take (length (apiBaseUrl svc) - 1) (apiBaseUrl svc) @
        drop (length (apiBaseUrl svc) - 1) (apiBaseUrl svc) = apiBaseUrl svc"
    by (rule append_take_drop_id)
  with d True show ?thesis by (simp add: cleanBaseUrl_def dropLast_def)
qed

lemma sample_token:
  "getClerkSessionToken (platform_with (Some sample_session) reply) = Some ''jwt-1''"
  by (simp add: getClerkSessionToken_def platform_with_def sample_session_def)

lemma platform_with_simps:
  "url_parses (platform_with s reply) u"
  "urlsession_data (platform_with s reply) r = reply"
  "string_utf8 (platform_with s reply) d = Some d"
  "json_parse (platform_with s reply) sample_payload = Some sample_json"
  by (simp_all add: platform_with_def)

lemma sample_decode:
  "JSONDecoder_decode (platform_with s reply) sample_payload =
     Inr \<lparr>session_id = ''s1'', room_name = ''room-1'', livekit_token = ''lk-1'',
          livekit_url = ''wss://lk.example'', agent_type = ''main_zeno'', user_id = ''u1''\<rparr>"
  by (simp add: JSONDecoder_decode_Inr platform_with_simps sample_json_def)

lemma request_for_shape:
  "httpMethod (request_for svc tok) = ''POST''"
  "url (request_for svc tok) = cleanBaseUrl svc @ ''/agent/session/create''"
  "map_of (allHTTPHeaderFields (request_for svc tok)) ''Authorization'' = Some (''Bearer '' @ tok)"
  "httpBody (request_for svc tok) = body"
  by (simp_all add: request_for_def)

lemma body_shape:
  "\<exists>dict. body = JObject dict \<and> distinct (map fst dict) \<and> set (map fst dict) = set body_keys"
  by (simp add: body_def body_keys_def)

text \<open>
  Claim C1. Every invocation of fetchConnectionDetailsFromBackend with a Clerk token sends
  (once the URL string parses) exactly one request: a POST to the API base URL, its
  trailing slash dropped, followed by \<^verbatim>\<open>/agent/session/create\<close>, carrying the header
  \<^verbatim>\<open>Authorization: Bearer <token>\<close> and a JSON body whose keys are exactly
  \<open>agent_type\<close>, \<open>session_type\<close> and \<open>initial_context\<close>. A 2xx response is handed to the
  decoder, and the call returns a descriptor exactly when the response is a JSON object
  in which \<open>session_id\<close>, \<open>room_name\<close>, \<open>livekit_token\<close>, \<open>livekit_url\<close>,
  \<open>agent_type\<close> and \<open>user_id\<close> are all present as strings.
\<close>

theorem backend_request_and_decoding:
  assumes run: "fetchConnectionDetailsFromBackend svc env clerkToken = (res, events)"
  shows "filter is_request events =
           (if url_parses env (url (request_for svc clerkToken))
            then [URLSessionData (request_for svc clerkToken)] else []) \<and>
         httpMethod (request_for svc clerkToken) = ''POST'' \<and>
         url (request_for svc clerkToken) = cleanBaseUrl svc @ ''/agent/session/create'' \<and>
         (apiBaseUrl svc = cleanBaseUrl svc \<or> apiBaseUrl svc = cleanBaseUrl svc @ ''/'') \<and>
         map_of (allHTTPHeaderFields (request_for svc clerkToken)) ''Authorization'' =
           Some (''Bearer '' @ clerkToken) \<and>
         (\<exists>dict. httpBody (request_for svc clerkToken) = JObject dict \<and>
            distinct (map fst dict) \<and> set (map fst dict) = set body_keys) \<and>
         (\<forall>dat code.
            url_parses env (url (request_for svc clerkToken)) \<and>
            urlsession_data env (request_for svc clerkToken) = Inr (dat, HTTPURLResponse code) \<and>
            200 \<le> code \<and> code \<le> 299 \<longrightarrow>
              JSONDecode dat \<in> set events \<and>
              ((\<exists>d. res = Returns d) \<longleftrightarrow>
                 (\<exists>dict. json_parse env dat = Some (JObject dict) \<and>
                    (\<forall>k \<in> set BackendResponse_keys. \<exists>s. map_of dict k = Some (JString s))))) \<and>
         (\<forall>d. res = Returns d \<longrightarrow>
            (\<exists>dat code dict.
               urlsession_data env (request_for svc clerkToken) = Inr (dat, HTTPURLResponse code) \<and>
               200 \<le> code \<and> code \<le> 299 \<and>
               json_parse env dat = Some (JObject dict) \<and>
               (\<forall>k \<in> set BackendResponse_keys. \<exists>s. map_of dict k = Some (JString s))))"
proof -
  have requests: "filter is_request events =
           (if url_parses env (url (request_for svc clerkToken))
            then [URLSessionData (request_for svc clerkToken)] else [])"
    using backend_requests [of svc env clerkToken] run by simp
  have decoded: "JSONDecode dat \<in> set events \<and>
              ((\<exists>d. res = Returns d) \<longleftrightarrow>
                 (\<exists>dict. json_parse env dat = Some (JObject dict) \<and>
                    (\<forall>k \<in> set BackendResponse_keys. \<exists>s. map_of dict k = Some (JString s))))"
    if "url_parses env (url (request_for svc clerkToken))"
      and "urlsession_data env (request_for svc clerkToken) = Inr (dat, HTTPURLResponse code)"
      and "200 \<le> code" and "code \<le> 299" for dat code
  proof -
    from backend_2xx [OF that] run
    have ev: "events = [URLSessionData (request_for svc clerkToken), JSONDecode dat]"
      and r: "res = (case JSONDecoder_decode env dat of
           Inl e \<Rightarrow> Throws (DecodeError e)
         | Inr r \<Rightarrow> Returns \<lparr>serverUrl = livekit_url r, roomName = room_name r,
                             participantName = ''user'', participantToken = livekit_token r\<rparr>)"
      by simp_all
    have "(\<exists>d. res = Returns d) \<longleftrightarrow> (\<exists>r. JSONDecoder_decode env dat = Inr r)"
      unfolding r by (cases "JSONDecoder_decode env dat") simp_all
    with ev show ?thesis by (simp add: decodes_iff_all_keys)
  qed
  have returned: "\<exists>dat code dict.
               urlsession_data env (request_for svc clerkToken) = Inr (dat, HTTPURLResponse code) \<and>
               200 \<le> code \<and> code \<le> 299 \<and>
               json_parse env dat = Some (JObject dict) \<and>
               (\<forall>k \<in> set BackendResponse_keys. \<exists>s. map_of dict k = Some (JString s))"
    if "res = Returns d" for d
  proof -
    from backend_returns [of svc env clerkToken d events] run that
    obtain dat code r where
      a: "urlsession_data env (request_for svc clerkToken) = Inr (dat, HTTPURLResponse code)"
         "200 \<le> code" "code \<le> 299" and b: "JSONDecoder_decode env dat = Inr r"
      by auto
    from b have "\<exists>r. JSONDecoder_decode env dat = Inr r" by blast
    then obtain dict where "json_parse env dat = Some (JObject dict)"
        "\<forall>k \<in> set BackendResponse_keys. \<exists>s. map_of dict k = Some (JString s)"
      unfolding decodes_iff_all_keys by blast
    with a show ?thesis by blast
  qed
  have c7: "\<forall>dat code.
            url_parses env (url (request_for svc clerkToken)) \<and>
            urlsession_data env (request_for svc clerkToken) = Inr (dat, HTTPURLResponse code) \<and>
            200 \<le> code \<and> code \<le> 299 \<longrightarrow>
              JSONDecode dat \<in> set events \<and>
              ((\<exists>d. res = Returns d) \<longleftrightarrow>
                 (\<exists>dict. json_parse env dat = Some (JObject dict) \<and>
                    (\<forall>k \<in> set BackendResponse_keys. \<exists>s. map_of dict k = Some (JString s))))"
    using decoded by blast
  have c8: "\<forall>d. res = Returns d \<longrightarrow>
            (\<exists>dat code dict.
               urlsession_data env (request_for svc clerkToken) = Inr (dat, HTTPURLResponse code) \<and>
               200 \<le> code \<and> code \<le> 299 \<and>
               json_parse env dat = Some (JObject dict) \<and>
               (\<forall>k \<in> set BackendResponse_keys. \<exists>s. map_of dict k = Some (JString s)))"
    using returned by blast
  have c6: "\<exists>dict. httpBody (request_for svc clerkToken) = JObject dict \<and>
            distinct (map fst dict) \<and> set (map fst dict) = set body_keys"
    using body_shape by (simp add: request_for_shape)
  show ?thesis
    using requests request_for_shape(1-3) [of svc clerkToken] cleanBaseUrl_cases [of svc] c6 c7 c8
    by (intro conjI) assumption+
qed


text \<open>The theorem at the fallback base URL and a backend that answers 200.\<close>

theorem backend_request_and_decoding_witness:
  "fetchConnectionDetailsFromBackend sample_service platform_ok ''jwt-1'' =
     (Returns \<lparr>serverUrl = ''wss://lk.example'', roomName = ''room-1'',
               participantName = ''user'', participantToken = ''lk-1''\<rparr>,
      [URLSessionData (request_for sample_service ''jwt-1''), JSONDecode sample_payload]) \<and>
   url (request_for sample_service ''jwt-1'') =
     ''https://d95f3ba12854.ngrok-free.app/agent/session/create'' \<and>
   httpMethod (request_for sample_service ''jwt-1'') = ''POST'' \<and>
   map_of (allHTTPHeaderFields (request_for sample_service ''jwt-1'')) ''Authorization'' =
     Some ''Bearer jwt-1'' \<and>
   (\<exists>dat code dict.
      urlsession_data platform_ok (request_for sample_service ''jwt-1'') =
        Inr (dat, HTTPURLResponse code) \<and>
      200 \<le> code \<and> code \<le> 299 \<and>
      json_parse platform_ok dat = Some (JObject dict) \<and>
      (\<forall>k \<in> set BackendResponse_keys. \<exists>s. map_of dict k = Some (JString s)))"
proof -
  have run: "fetchConnectionDetailsFromBackend sample_service platform_ok ''jwt-1'' =
     (Returns \<lparr>serverUrl = ''wss://lk.example'', roomName = ''room-1'',
               participantName = ''user'', participantToken = ''lk-1''\<rparr>,
      [URLSessionData (request_for sample_service ''jwt-1''), JSONDecode sample_payload])"
    by (simp add: platform_ok_def backend_2xx [where dat = sample_payload and code = 200]
          platform_with_simps sample_decode)
  have clean: "cleanBaseUrl sample_service = ''https://d95f3ba12854.ngrok-free.app''"
    by (simp add: cleanBaseUrl_def sample_service_def apiBaseUrl_init_def hasSuffix_def dropLast_def)
  from backend_request_and_decoding [OF run] run clean show ?thesis
    by simp
qed

lemma fetchConnectionDetails_no_token:
  "getClerkSessionToken env = None \<Longrightarrow>
     fetchConnectionDetails svc env room participant =
       (Throws (ServiceError authenticationFailed), [GetClerkSessionToken])"
  by (simp add: fetchConnectionDetails_def)

lemma fetchConnectionDetails_token:
  "getClerkSessionToken env = Some tok \<Longrightarrow>
     fetchConnectionDetails svc env room participant =
       (fst (fetchConnectionDetailsFromBackend svc env tok),
        GetClerkSessionToken # snd (fetchConnectionDetailsFromBackend svc env tok))"
  by (simp add: fetchConnectionDetails_def split: prod.splits)

lemma sample_run:
  "fetchConnectionDetails sample_service platform_ok room participant =
     (Returns \<lparr>serverUrl = ''wss://lk.example'', roomName = ''room-1'',
               participantName = ''user'', participantToken = ''lk-1''\<rparr>,
      [GetClerkSessionToken, URLSessionData (request_for sample_service ''jwt-1''),
       JSONDecode sample_payload])"
  by (simp add: platform_ok_def fetchConnectionDetails_token [OF sample_token]
        backend_2xx [where dat = sample_payload and code = 200] platform_with_simps sample_decode)

text \<open>
  Claim C6. Whenever fetchConnectionDetails returns, the descriptor it returns is assembled
  from the JSON object of the backend's 2xx response: \<open>serverUrl\<close> is the response's
  \<open>livekit_url\<close>, \<open>roomName\<close> its \<open>room_name\<close> and \<open>participantToken\<close> its
  \<open>livekit_token\<close>.
\<close>

theorem fetchConnectionDetails_descriptor:
  assumes run: "fetchConnectionDetails svc env room participant = (Returns d, events)"
  shows "\<exists>clerkToken dat code dict.
           getClerkSessionToken env = Some clerkToken \<and>
           urlsession_data env (request_for svc clerkToken) = Inr (dat, HTTPURLResponse code) \<and>
           200 \<le> code \<and> code \<le> 299 \<and>
           json_parse env dat = Some (JObject dict) \<and>
           map_of dict ''livekit_url'' = Some (JString (serverUrl d)) \<and>
           map_of dict ''room_name'' = Some (JString (roomName d)) \<and>
           map_of dict ''livekit_token'' = Some (JString (participantToken d))"
proof (cases "getClerkSessionToken env")
  case None
  with run show ?thesis by (simp add: fetchConnectionDetails_no_token)
next
  case (Some tok)
  with run have "fetchConnectionDetailsFromBackend svc env tok = (Returns d, tl events)"
    by (auto simp: fetchConnectionDetails_token [OF Some] prod_eq_iff)
  from backend_returns [OF this] obtain dat code r where
    a: "urlsession_data env (request_for svc tok) = Inr (dat, HTTPURLResponse code)"
       "200 \<le> code" "code \<le> 299"
    and dec: "JSONDecoder_decode env dat = Inr r"
    and d: "d = \<lparr>serverUrl = livekit_url r, roomName = room_name r,
                   participantName = ''user'', participantToken = livekit_token r\<rparr>"
    by blast
  from dec obtain dict where "json_parse env dat = Some (JObject dict)"
      "map_of dict ''livekit_url'' = Some (JString (livekit_url r))"
      "map_of dict ''room_name'' = Some (JString (room_name r))"
      "map_of dict ''livekit_token'' = Some (JString (livekit_token r))"
    unfolding JSONDecoder_decode_Inr by blast
  with Some a d show ?thesis by auto
qed

text \<open>
  The theorem at the run of the sample service against a backend that answers 200.
\<close>

theorem fetchConnectionDetails_descriptor_witness:
  "fetchConnectionDetails sample_service platform_ok ''my-room'' ''me'' =
     (Returns \<lparr>serverUrl = ''wss://lk.example'', roomName = ''room-1'',
               participantName = ''user'', participantToken = ''lk-1''\<rparr>,
      [GetClerkSessionToken, URLSessionData (request_for sample_service ''jwt-1''),
       JSONDecode sample_payload]) \<and>
   (\<exists>clerkToken dat code dict.
      getClerkSessionToken platform_ok = Some clerkToken \<and>
      urlsession_data platform_ok (request_for sample_service clerkToken) =
        Inr (dat, HTTPURLResponse code) \<and>
      200 \<le> code \<and> code \<le> 299 \<and>
      json_parse platform_ok dat = Some (JObject dict) \<and>
      map_of dict ''livekit_url'' = Some (JString ''wss://lk.example'') \<and>
      map_of dict ''room_name'' = Some (JString ''room-1'') \<and>
      map_of dict ''livekit_token'' = Some (JString ''lk-1''))"
  using fetchConnectionDetails_descriptor [OF sample_run [of "''my-room''" "''me''"]]
    sample_run [of "''my-room''" "''me''"]
  by simp

text \<open>
  Claim C8. The result of fetchConnectionDetails does not depend on its \<open>roomName\<close> and
  \<open>participantName\<close> arguments: two invocations that differ only in them have the same
  outcome and the same external calls, every request sent has the body
  \<open>agent_type = main_zeno\<close>, \<open>session_type = ios\<close>, \<open>initial_context = {}\<close>, and the
  \<open>participantName\<close> of a returned descriptor is the constant \<open>user\<close>.
\<close>

theorem fetchConnectionDetails_ignores_arguments:
  "fetchConnectionDetails svc env room1 participant1 =
     fetchConnectionDetails svc env room2 participant2 \<and>
   (\<forall>req. URLSessionData req \<in> set (snd (fetchConnectionDetails svc env room1 participant1)) \<longrightarrow>
      httpBody req = JObject [(''agent_type'', JString ''main_zeno''),
                              (''session_type'', JString ''ios''),
                              (''initial_context'', JObject [])]) \<and>
   (\<forall>d. fst (fetchConnectionDetails svc env room1 participant1) = Returns d \<longrightarrow>
      participantName d = ''user'')"
proof (intro conjI allI impI)
  show "fetchConnectionDetails svc env room1 participant1 =
        fetchConnectionDetails svc env room2 participant2"
    by (simp add: fetchConnectionDetails_def)
next
  fix req
  assume req: "URLSessionData req \<in> set (snd (fetchConnectionDetails svc env room1 participant1))"
  show "httpBody req = JObject [(''agent_type'', JString ''main_zeno''),
                              (''session_type'', JString ''ios''),
                              (''initial_context'', JObject [])]"
  proof (cases "getClerkSessionToken env")
    case None
    with req show ?thesis by (simp add: fetchConnectionDetails_no_token)
  next
    case (Some tok)
    with req have "URLSessionData req \<in> set (snd (fetchConnectionDetailsFromBackend svc env tok))"
      by (simp add: fetchConnectionDetails_token [OF Some])
    then have "URLSessionData req \<in>
        set (filter is_request (snd (fetchConnectionDetailsFromBackend svc env tok)))"
      by simp
    then have "req = request_for svc tok"
      unfolding backend_requests by (simp split: if_splits)
    then show ?thesis by (simp add: request_for_def body_def)
  qed
next
  fix d
  assume d: "fst (fetchConnectionDetails svc env room1 participant1) = Returns d"
  show "participantName d = ''user''"
  proof (cases "getClerkSessionToken env")
    case None
    with d show ?thesis by (simp add: fetchConnectionDetails_no_token)
  next
    case (Some tok)
    with d have "fetchConnectionDetailsFromBackend svc env tok =
        (Returns d, snd (fetchConnectionDetailsFromBackend svc env tok))"
      by (simp add: fetchConnectionDetails_token [OF Some] prod_eq_iff)
    from backend_returns [OF this] show ?thesis by auto
  qed
qed

text \<open>
  The theorem at two invocations with different room and participant names.
\<close>

theorem fetchConnectionDetails_ignores_arguments_witness:
  "fetchConnectionDetails sample_service platform_ok ''room-a'' ''alice'' =
     fetchConnectionDetails sample_service platform_ok ''room-b'' ''bob'' \<and>
   URLSessionData (request_for sample_service ''jwt-1'') \<in>
     set (snd (fetchConnectionDetails sample_service platform_ok ''room-a'' ''alice'')) \<and>
   httpBody (request_for sample_service ''jwt-1'') =
     JObject [(''agent_type'', JString ''main_zeno''), (''session_type'', JString ''ios''),
              (''initial_context'', JObject [])] \<and>
   fst (fetchConnectionDetails sample_service platform_ok ''room-a'' ''alice'') =
     Returns \<lparr>serverUrl = ''wss://lk.example'', roomName = ''room-1'',
              participantName = ''user'', participantToken = ''lk-1''\<rparr> \<and>
   participantName \<lparr>serverUrl = ''wss://lk.example'', roomName = ''room-1'',
              participantName = ''user'', participantToken = ''lk-1''\<rparr> = ''user''"
proof -
  note t = fetchConnectionDetails_ignores_arguments
    [of sample_service platform_ok "''room-a''" "''alice''" "''room-b''" "''bob''"]
  have m: "URLSessionData (request_for sample_service ''jwt-1'') \<in>
     set (snd (fetchConnectionDetails sample_service platform_ok ''room-a'' ''alice''))"
    by (simp add: sample_run)
  have r: "fst (fetchConnectionDetails sample_service platform_ok ''room-a'' ''alice'') =
     Returns \<lparr>serverUrl = ''wss://lk.example'', roomName = ''room-1'',
              participantName = ''user'', participantToken = ''lk-1''\<rparr>"
    by (simp add: sample_run)
  from t m r show ?thesis by blast
qed

text \<open>
  Where the join has a double slash: never for a base URL that does not end in two
  slashes, always for one that does.
\<close>

lemma hasSuffix_iff: "hasSuffix s suf \<longleftrightarrow> (\<exists>p. s = p @ suf)"
proof
  assume h: "hasSuffix s suf"
  then have "s = take (length s - length suf) s @ suf"
    by (metis append_take_drop_id hasSuffix_def)
  then show "\<exists>p. s = p @ suf" ..
next
  assume "\<exists>p. s = p @ suf"
  then show "hasSuffix s suf" by (auto simp: hasSuffix_def)
qed

lemma cleanBaseUrl_one_slash:
  "hasSuffix (apiBaseUrl svc) ''/'' \<Longrightarrow> apiBaseUrl svc = cleanBaseUrl svc @ ''/''"
  using cleanBaseUrl_cases [of svc] by (auto simp: cleanBaseUrl_def hasSuffix_iff dropLast_def)

lemma join_without_double_slash:
  assumes "\<not> hasSuffix (apiBaseUrl svc) ''//''"
  shows "\<not> hasSuffix (cleanBaseUrl svc) ''/''"
proof (cases "hasSuffix (apiBaseUrl svc) ''/''")
  case False
  then show ?thesis by (simp add: cleanBaseUrl_def)
next
  case True
  show ?thesis
  proof
    assume "hasSuffix (cleanBaseUrl svc) ''/''"
    then obtain q where "cleanBaseUrl svc = q @ ''/''" by (auto simp: hasSuffix_iff)
    with cleanBaseUrl_one_slash [OF True] have "apiBaseUrl svc = q @ ''//''" by simp
    then have "hasSuffix (apiBaseUrl svc) ''//''" unfolding hasSuffix_iff by blast
    with assms show False by simp
  qed
qed

lemma join_with_double_slash:
  assumes "hasSuffix (apiBaseUrl svc) ''//''"
  shows "hasSuffix (cleanBaseUrl svc @ ''/agent/session/create'') ''//agent/session/create''"
proof -
  from assms obtain q where q: "apiBaseUrl svc = q @ ''//''" by (auto simp: hasSuffix_iff)
  then have "apiBaseUrl svc = (q @ ''/'') @ ''/''" by simp
  then have "hasSuffix (apiBaseUrl svc) ''/''" unfolding hasSuffix_iff by blast
  from cleanBaseUrl_one_slash [OF this] q have "cleanBaseUrl svc = q @ ''/''" by simp
  then have "cleanBaseUrl svc @ ''/agent/session/create'' = q @ ''//agent/session/create''"
    by simp
  then show ?thesis unfolding hasSuffix_iff by blast
qed

text \<open>
  Claim C10 says that for every configured API base URL the request URL is the base without
  any trailing slash followed by \<^verbatim>\<open>/agent/session/create\<close>, with no double slash at
  the join. The source drops one trailing slash only: configured with a base URL that ends
  in two slashes, the service sends its request to a URL with a double slash at the join.
\<close>

theorem double_slash_base_url_request:
  "apiBaseUrl double_slash_service = ''https://api.example.com//'' \<and>
   fetchConnectionDetails double_slash_service platform_ok ''my-room'' ''me'' =
     (Returns \<lparr>serverUrl = ''wss://lk.example'', roomName = ''room-1'',
               participantName = ''user'', participantToken = ''lk-1''\<rparr>,
      [GetClerkSessionToken, URLSessionData (request_for double_slash_service ''jwt-1''),
       JSONDecode sample_payload]) \<and>
   url (request_for double_slash_service ''jwt-1'') =
     ''https://api.example.com//agent/session/create''"
proof -
  have a: "apiBaseUrl double_slash_service = ''https://api.example.com//''"
    by (simp add: double_slash_service_def apiBaseUrl_init_def trimmingCharacters_def)
  have c: "cleanBaseUrl double_slash_service = ''https://api.example.com/''"
    by (simp add: cleanBaseUrl_def a hasSuffix_def dropLast_def)
  have r: "fetchConnectionDetails double_slash_service platform_ok ''my-room'' ''me'' =
     (Returns \<lparr>serverUrl = ''wss://lk.example'', roomName = ''room-1'',
               participantName = ''user'', participantToken = ''lk-1''\<rparr>,
      [GetClerkSessionToken, URLSessionData (request_for double_slash_service ''jwt-1''),
       JSONDecode sample_payload])"
    by (simp add: platform_ok_def fetchConnectionDetails_token [OF sample_token]
        backend_2xx [where dat = sample_payload and code = 200] platform_with_simps sample_decode)
  from a c r show ?thesis by (simp add: request_for_shape)
qed







section \<open>Facts about the web client\<close>

lemma or_else_nonempty: "b \<noteq> [] \<Longrightarrow> or_else a b \<noteq> []"
  by (simp add: or_else_def split: option.splits)

text \<open>The \<^verbatim>\<open>try\<close> block, one lemma per path through it.\<close>

lemma try_getToken_rejects:
  "useAuth_getToken env = Inl e \<Longrightarrow> testApi_try env ep = (Inl e, [GetToken])"
  by (simp add: testApi_try_def Let_def)

lemma try_no_token:
  "useAuth_getToken env = Inr None \<or> useAuth_getToken env = Inr (Some []) \<Longrightarrow>
     testApi_try env ep =
       (Inl (ThrownValue (JsError (Some ''No auth token available''))), [GetToken])"
  by (auto simp: testApi_try_def)

lemma try_fetch_rejects:
  "useAuth_getToken env = Inr (Some token) \<Longrightarrow> token \<noteq> [] \<Longrightarrow>
   fetch env (fetch_call env ep token) = Inl e \<Longrightarrow>
     testApi_try env ep = (Inl (ThrownValue e), [GetToken, Fetch (fetch_call env ep token)])"
  by (simp add: testApi_try_def Let_def)

lemma try_not_ok:
  "useAuth_getToken env = Inr (Some token) \<Longrightarrow> token \<noteq> [] \<Longrightarrow>
   fetch env (fetch_call env ep token) = Inr resp \<Longrightarrow> \<not> ok resp \<Longrightarrow>
     testApi_try env ep =
       ((case text_result resp of
           Inl e \<Rightarrow> Inl (ThrownValue e)
         | Inr errorText \<Rightarrow>
             Inl (ThrownValue (JsError (Some
               (''HTTP '' @ show_nat (status resp) @ '': '' @ errorText))))),
        [GetToken, Fetch (fetch_call env ep token), ResponseText])"
  by (simp add: testApi_try_def Let_def split: sum.splits)

lemma try_ok:
  "useAuth_getToken env = Inr (Some token) \<Longrightarrow> token \<noteq> [] \<Longrightarrow>
   fetch env (fetch_call env ep token) = Inr resp \<Longrightarrow> ok resp \<Longrightarrow>
     testApi_try env ep =
       ((case json_result resp of Inl e \<Rightarrow> Inl (ThrownValue e) | Inr d \<Rightarrow> Inr d),
        [GetToken, Fetch (fetch_call env ep token), ResponseJson])"
  by (simp add: testApi_try_def Let_def split: sum.splits)

lemma try_returns:
  assumes "testApi_try env ep = (Inr d, events)"
  shows "\<exists>token resp. useAuth_getToken env = Inr (Some token) \<and> token \<noteq> [] \<and>
           fetch env (fetch_call env ep token) = Inr resp \<and> ok resp \<and> json_result resp = Inr d"
  using assms
  by (auto simp: testApi_try_def Let_def split: sum.splits option.splits if_splits)

lemma try_fetches:
  "filter is_fetch (snd (testApi_try env ep)) =
     (case useAuth_getToken env of
        Inr (Some token) \<Rightarrow> if token = [] then [] else [Fetch (fetch_call env ep token)]
      | other \<Rightarrow> [])"
  by (auto simp: testApi_try_def Let_def split: sum.splits option.splits if_splits)

lemma try_sets_nothing:
  "filter is_error_message (snd (testApi_try env ep)) = []"
  by (auto simp: testApi_try_def Let_def split: sum.splits option.splits if_splits)

text \<open>The whole function, by what the \<^verbatim>\<open>try\<close> block ended with.\<close>

lemma testApi_success:
  "testApi_try env ep = (Inr d, events) \<Longrightarrow>
     testApi env ep st =
       (Inr (),
        st\<lparr>loading := False,
           response := Some \<lparr>success = True, data = Some d, error = None\<rparr>\<rparr>,
        [SetLoading True, SetResponse None] @ events @
        [SetResponse (Some \<lparr>success = True, data = Some d, error = None\<rparr>), SetLoading False])"
  by (simp add: testApi_def Let_def)

lemma testApi_caught:
  "testApi_try env ep = (Inl (ThrownValue e), events) \<Longrightarrow>
     testApi env ep st =
       (Inr (),
        st\<lparr>loading := False,
           response := Some \<lparr>success = False, data = None,
                             error = Some (or_else (message e) ''Unknown error occurred'')\<rparr>\<rparr>,
        [SetLoading True, SetResponse None] @ events @
        [SetResponse (Some \<lparr>success = False, data = None,
                             error = Some (or_else (message e) ''Unknown error occurred'')\<rparr>),
         SetLoading False])"
  by (simp add: testApi_def Let_def)

lemma testApi_caught_null:
  "testApi_try env ep = (Inl ThrownNull, events) \<Longrightarrow>
     testApi env ep st =
       (Inl (TypeError_reading_message ''null''),
        st\<lparr>loading := False, response := None\<rparr>,
        [SetLoading True, SetResponse None] @ events @ [SetLoading False])"
  by (simp add: testApi_def Let_def)

lemma testApi_caught_undefined:
  "testApi_try env ep = (Inl ThrownUndefined, events) \<Longrightarrow>
     testApi env ep st =
       (Inl (TypeError_reading_message ''undefined''),
        st\<lparr>loading := False, response := None\<rparr>,
        [SetLoading True, SetResponse None] @ events @ [SetLoading False])"
  by (simp add: testApi_def Let_def)

text \<open>Only a rejection of \<^verbatim>\<open>getToken\<close> can bring null or undefined to \<^verbatim>\<open>catch\<close>.\<close>

lemma try_nullish:
  assumes "testApi_try env ep = (Inl thrown, events)"
    and "thrown = ThrownNull \<or> thrown = ThrownUndefined"
  shows "useAuth_getToken env = Inl thrown \<and> events = [GetToken]"
  using assms
  by (auto simp: testApi_try_def Let_def split: sum.splits option.splits if_splits)

lemma testApi_cases:
  obtains (success) d events where "testApi_try env ep = (Inr d, events)"
  | (caught) e events where "testApi_try env ep = (Inl (ThrownValue e), events)"
  | (null) "testApi_try env ep = (Inl ThrownNull, [GetToken])"
      "useAuth_getToken env = Inl ThrownNull"
  | (undefined) "testApi_try env ep = (Inl ThrownUndefined, [GetToken])"
      "useAuth_getToken env = Inl ThrownUndefined"
proof (cases "testApi_try env ep")
  case (Pair r events)
  show ?thesis
  proof (cases r)
    case (Inr d)
    with Pair success show ?thesis by simp
  next
    case (Inl thrown)
    show ?thesis
    proof (cases thrown)
      case ThrownNull
      with Pair Inl try_nullish [of env ep ThrownNull events] null show ?thesis by simp
    next
      case ThrownUndefined
      with Pair Inl try_nullish [of env ep ThrownUndefined events] undefined show ?thesis
        by simp
    next
      case (ThrownValue e)
      with Pair Inl caught show ?thesis by simp
    qed
  qed
qed

lemma testApi_fetches:
  "filter is_fetch (snd (snd (testApi env ep st))) = filter is_fetch (snd (testApi_try env ep))"
  by (cases env ep rule: testApi_cases)
     (simp_all add: testApi_success testApi_caught testApi_caught_null testApi_caught_undefined)

lemma testApi_endpoint: "endpoint (fst (snd (testApi env ep st))) = endpoint st"
  by (cases env ep rule: testApi_cases)
     (simp_all add: testApi_success testApi_caught testApi_caught_null testApi_caught_undefined)

text \<open>The state testApi returns is the state its setters leave, in the order of the events.\<close>

lemma try_calls_only:
  "e \<in> set (snd (testApi_try env ep)) \<Longrightarrow> apply_event st e = st"
  by (auto simp: testApi_try_def Let_def split: sum.splits option.splits if_splits)

lemma foldl_calls_only:
  "(\<And>e st. e \<in> set es \<Longrightarrow> apply_event st e = st) \<Longrightarrow> foldl apply_event st es = st"
  by (induction es arbitrary: st) simp_all

lemma testApi_state_by_events:
  "foldl apply_event st (snd (snd (testApi env ep st))) = fst (snd (testApi env ep st))"
proof -
  have calls: "foldl apply_event s (snd (testApi_try env ep)) = s" for s
    by (rule foldl_calls_only) (rule try_calls_only)
  show ?thesis
  proof (cases env ep rule: testApi_cases)
    case (success d events)
    with calls [of "st\<lparr>loading := True, response := None\<rparr>"] show ?thesis
      by (simp add: testApi_success [OF success])
  next
    case (caught e events)
    with calls [of "st\<lparr>loading := True, response := None\<rparr>"] show ?thesis
      by (simp add: testApi_caught [OF caught])
  next
    case null
    then show ?thesis by (simp add: testApi_caught_null [OF null(1)])
  next
    case undefined
    then show ?thesis by (simp add: testApi_caught_undefined [OF undefined(1)])
  qed
qed

text \<open>An invocation all of whose promises settle is the run of testApi.\<close>

lemma until_pending_all:
  "(\<And>a. settles a) \<Longrightarrow> until_pending settles es = (es, False)"
  by (induction es) (simp_all split: option.splits)

lemma testApi_invocation_settled:
  assumes "\<And>a. settles a"
  shows "testApi_invocation settles env ep st =
           ((case fst (testApi env ep st) of Inr u \<Rightarrow> Resolved | Inl e \<Rightarrow> Rejected e),
            snd (testApi env ep st))"
  by (simp add: testApi_invocation_def until_pending_all [OF assms] split: prod.splits)

text \<open>
  Claim C9, amended. Whenever every promise testApi awaits settles and a rejected
  \<^verbatim>\<open>getToken\<close> promise does not carry null or undefined, testApi does not throw to its
  caller: the invocation ends with \<open>loading\<close> reset to false and \<open>response\<close> set to an
  \<open>ApiResponse\<close>, whose \<open>success\<close> is true exactly when a non-empty token was obtained,
  the HTTP status was 2xx and the body parsed as JSON; otherwise \<open>success\<close> is false with
  a non-empty error message, which is the caught error's message, or
  \<open>Unknown error occurred\<close> when the caught error has no message or an empty one.
\<close>

theorem testApi_invocation_resolves:
  assumes settle: "\<forall>a. settles a"
    and not_null: "useAuth_getToken env \<noteq> Inl ThrownNull"
    and not_undefined: "useAuth_getToken env \<noteq> Inl ThrownUndefined"
  shows
  "fst (testApi_invocation settles env ep st) = Resolved \<and>
   loading (fst (snd (testApi_invocation settles env ep st))) = False \<and>
   (\<exists>r. response (fst (snd (testApi_invocation settles env ep st))) = Some r \<and>
      (success r \<longleftrightarrow>
         (\<exists>token resp d. useAuth_getToken env = Inr (Some token) \<and> token \<noteq> [] \<and>
            fetch env (fetch_call env ep token) = Inr resp \<and> ok resp \<and>
            json_result resp = Inr d)) \<and>
      (\<not> success r \<longrightarrow> (\<exists>msg. error r = Some msg \<and> msg \<noteq> [])) \<and>
      (\<forall>e events. testApi_try env ep = (Inl (ThrownValue e), events) \<longrightarrow>
         (message e = None \<or> message e = Some [] \<longrightarrow>
            error r = Some ''Unknown error occurred'') \<and>
         (\<forall>m. message e = Some m \<and> m \<noteq> [] \<longrightarrow> error r = Some m)))"
proof -
  from settle have inv: "testApi_invocation settles env ep st =
      ((case fst (testApi env ep st) of Inr u \<Rightarrow> Resolved | Inl e \<Rightarrow> Rejected e),
       snd (testApi env ep st))"
    by (intro testApi_invocation_settled) simp
  show ?thesis
  proof (cases env ep rule: testApi_cases)
    case (success d events)
    from try_returns [OF success] show ?thesis
      by (auto simp: inv testApi_success [OF success] success)
  next
    case (caught e events)
    have no: "\<not> (\<exists>token resp d. useAuth_getToken env = Inr (Some token) \<and> token \<noteq> [] \<and>
            fetch env (fetch_call env ep token) = Inr resp \<and> ok resp \<and>
            json_result resp = Inr d)"
    proof
      assume "\<exists>token resp d. useAuth_getToken env = Inr (Some token) \<and> token \<noteq> [] \<and>
            fetch env (fetch_call env ep token) = Inr resp \<and> ok resp \<and>
            json_result resp = Inr d"
      then obtain token resp d where "useAuth_getToken env = Inr (Some token)" "token \<noteq> []"
          "fetch env (fetch_call env ep token) = Inr resp" "ok resp" and j: "json_result resp = Inr d"
        by blast
      from try_ok [OF this(1-4)] caught j show False by simp
    qed
    have ne: "or_else (message e) ''Unknown error occurred'' \<noteq> []"
      by (rule or_else_nonempty) simp
    show ?thesis using no ne
      by (auto simp: inv testApi_caught [OF caught] caught or_else_def)
  next
    case null
    with not_null show ?thesis by simp
  next
    case undefined
    with not_undefined show ?thesis by simp
  qed
qed

lemma sample_browser_simps:
  "useAuth_getToken (browser_with token reply) = token"
  "fetch (browser_with token reply) c = reply"
  "web_apiBaseUrl (browser_with token reply) = ''http://localhost:8000''"
  by (simp_all add: browser_with_def web_apiBaseUrl_def or_else_def)

lemma sample_responses:
  "ok response_200" "\<not> ok response_401" "ok response_204"
  by (simp_all add: ok_def response_200_def response_401_def response_204_def)

lemma show_nat_401: "show_nat 401 = ''401''"
  by code_simp

lemma run_200:
  "testApi (browser_with (Inr (Some ''tok'')) (Inr response_200)) ep st =
     (Inr (),
      st\<lparr>loading := False,
         response := Some \<lparr>success = True, data = Some (JArray []), error = None\<rparr>\<rparr>,
      [SetLoading True, SetResponse None, GetToken,
       Fetch (fetch_call (browser_with (Inr (Some ''tok'')) (Inr response_200)) ep ''tok''),
       ResponseJson,
       SetResponse (Some \<lparr>success = True, data = Some (JArray []), error = None\<rparr>),
       SetLoading False])"
proof -
  have "testApi_try (browser_with (Inr (Some ''tok'')) (Inr response_200)) ep =
     (Inr (JArray []),
      [GetToken, Fetch (fetch_call (browser_with (Inr (Some ''tok'')) (Inr response_200)) ep ''tok''),
       ResponseJson])"
    by (simp add: try_ok [where token = "''tok''" and resp = response_200]
          sample_browser_simps sample_responses)
       (simp add: response_200_def)
  from testApi_success [OF this] show ?thesis by simp
qed

lemma run_204:
  "testApi (browser_with (Inr (Some ''tok'')) (Inr response_204)) ep st =
     (Inr (),
      st\<lparr>loading := False,
         response := Some \<lparr>success = False, data = None,
                           error = Some ''Unexpected end of JSON input''\<rparr>\<rparr>,
      [SetLoading True, SetResponse None, GetToken,
       Fetch (fetch_call (browser_with (Inr (Some ''tok'')) (Inr response_204)) ep ''tok''),
       ResponseJson,
       SetResponse (Some \<lparr>success = False, data = None,
                           error = Some ''Unexpected end of JSON input''\<rparr>),
       SetLoading False])"
proof -
  have "testApi_try (browser_with (Inr (Some ''tok'')) (Inr response_204)) ep =
     (Inl (ThrownValue (JsError (Some ''Unexpected end of JSON input''))),
      [GetToken, Fetch (fetch_call (browser_with (Inr (Some ''tok'')) (Inr response_204)) ep ''tok''),
       ResponseJson])"
    by (simp add: try_ok [where token = "''tok''" and resp = response_204]
          sample_browser_simps sample_responses)
       (simp add: response_204_def)
  from testApi_caught [OF this] show ?thesis by (simp add: or_else_def)
qed

lemma run_401:
  "testApi (browser_with (Inr (Some ''tok'')) (Inr response_401)) ep st =
     (Inr (),
      st\<lparr>loading := False,
         response := Some \<lparr>success = False, data = None,
                           error = Some ''HTTP 401: Unauthorized''\<rparr>\<rparr>,
      [SetLoading True, SetResponse None, GetToken,
       Fetch (fetch_call (browser_with (Inr (Some ''tok'')) (Inr response_401)) ep ''tok''),
       ResponseText,
       SetResponse (Some \<lparr>success = False, data = None,
                           error = Some ''HTTP 401: Unauthorized''\<rparr>),
       SetLoading False])"
proof -
  have "testApi_try (browser_with (Inr (Some ''tok'')) (Inr response_401)) ep =
     (Inl (ThrownValue (JsError (Some ''HTTP 401: Unauthorized''))),
      [GetToken, Fetch (fetch_call (browser_with (Inr (Some ''tok'')) (Inr response_401)) ep ''tok''),
       ResponseText])"
    by (simp add: try_not_ok [where token = "''tok''" and resp = response_401]
          sample_browser_simps sample_responses)
       (simp add: response_401_def show_nat_401)
  from testApi_caught [OF this] show ?thesis by (simp add: or_else_def)
qed

lemma run_fetch_failed:
  "testApi (browser_with (Inr (Some ''tok'')) (Inl (JsError (Some ''Failed to fetch'')))) ep st =
     (Inr (),
      st\<lparr>loading := False,
         response := Some \<lparr>success = False, data = None, error = Some ''Failed to fetch''\<rparr>\<rparr>,
      [SetLoading True, SetResponse None, GetToken,
       Fetch (fetch_call (browser_with (Inr (Some ''tok'')) (Inl (JsError (Some ''Failed to fetch''))))
                ep ''tok''),
       SetResponse (Some \<lparr>success = False, data = None, error = Some ''Failed to fetch''\<rparr>),
       SetLoading False])"
proof -
  have "testApi_try (browser_with (Inr (Some ''tok'')) (Inl (JsError (Some ''Failed to fetch'')))) ep =
     (Inl (ThrownValue (JsError (Some ''Failed to fetch''))),
      [GetToken,
       Fetch (fetch_call (browser_with (Inr (Some ''tok'')) (Inl (JsError (Some ''Failed to fetch''))))
                ep ''tok'')])"
    by (simp add: try_fetch_rejects [where token = "''tok''"] sample_browser_simps)
  from testApi_caught [OF this] show ?thesis by (simp add: or_else_def)
qed

lemma run_no_message:
  "testApi (browser_with (Inl (ThrownValue (JsError None))) (Inr response_200)) ep st =
     (Inr (),
      st\<lparr>loading := False,
         response := Some \<lparr>success = False, data = None,
                           error = Some ''Unknown error occurred''\<rparr>\<rparr>,
      [SetLoading True, SetResponse None, GetToken,
       SetResponse (Some \<lparr>success = False, data = None,
                           error = Some ''Unknown error occurred''\<rparr>),
       SetLoading False])"
proof -
  have "testApi_try (browser_with (Inl (ThrownValue (JsError None))) (Inr response_200)) ep =
     (Inl (ThrownValue (JsError None)), [GetToken])"
    by (simp add: try_getToken_rejects sample_browser_simps)
  from testApi_caught [OF this] show ?thesis by (simp add: or_else_def)
qed

lemma run_null:
  "testApi (browser_with (Inl ThrownNull) (Inr response_200)) ep st =
     (Inl (TypeError_reading_message ''null''),
      st\<lparr>loading := False, response := None\<rparr>,
      [SetLoading True, SetResponse None, GetToken, SetLoading False])"
proof -
  have "testApi_try (browser_with (Inl ThrownNull) (Inr response_200)) ep =
     (Inl ThrownNull, [GetToken])"
    by (simp add: try_getToken_rejects sample_browser_simps)
  from testApi_caught_null [OF this] show ?thesis by simp
qed

lemma all_settle_invocation:
  "testApi_invocation all_settle env ep st =
     ((case fst (testApi env ep st) of Inr u \<Rightarrow> Resolved | Inl e \<Rightarrow> Rejected e),
      snd (testApi env ep st))"
  by (rule testApi_invocation_settled) (simp add: all_settle_def)

text \<open>
  The theorem at a successful call, and at a call where Clerk rejects with an error that
  has no message, all promises settling.
\<close>

theorem testApi_invocation_resolves_witness:
  "(\<forall>a. all_settle a) \<and>
   useAuth_getToken (browser_with (Inr (Some ''tok'')) (Inr response_200)) \<noteq> Inl ThrownNull \<and>
   useAuth_getToken (browser_with (Inr (Some ''tok'')) (Inr response_200)) \<noteq>
     Inl ThrownUndefined \<and>
   testApi_invocation all_settle (browser_with (Inr (Some ''tok'')) (Inr response_200))
     ''/user/me'' initial_state =
     (Resolved,
      \<lparr>loading = False,
       response = Some \<lparr>success = True, data = Some (JArray []), error = None\<rparr>,
       endpoint = ''/user/test-auth''\<rparr>,
      [SetLoading True, SetResponse None, GetToken,
       Fetch (fetch_call (browser_with (Inr (Some ''tok'')) (Inr response_200))
                ''/user/me'' ''tok''),
       ResponseJson,
       SetResponse (Some \<lparr>success = True, data = Some (JArray []), error = None\<rparr>),
       SetLoading False]) \<and>
   testApi_try (browser_with (Inl (ThrownValue (JsError None))) (Inr response_200)) ''/user/me'' =
     (Inl (ThrownValue (JsError None)), [GetToken]) \<and>
   message (JsError None) = None \<and>
   fst (testApi_invocation all_settle
          (browser_with (Inl (ThrownValue (JsError None))) (Inr response_200))
          ''/user/me'' initial_state) = Resolved \<and>
   (\<exists>r. response (fst (snd (testApi_invocation all_settle
           (browser_with (Inl (ThrownValue (JsError None))) (Inr response_200))
           ''/user/me'' initial_state))) = Some r \<and>
        \<not> success r \<and> error r = Some ''Unknown error occurred'')"
proof -
  have s: "\<forall>a. all_settle a" by (simp add: all_settle_def)
  have n1: "useAuth_getToken (browser_with (Inr (Some ''tok'')) (Inr response_200)) \<noteq>
              Inl ThrownNull"
    and n2: "useAuth_getToken (browser_with (Inr (Some ''tok'')) (Inr response_200)) \<noteq>
              Inl ThrownUndefined"
    and n3: "useAuth_getToken (browser_with (Inl (ThrownValue (JsError None)))
              (Inr response_200)) \<noteq> Inl ThrownNull"
    and n4: "useAuth_getToken (browser_with (Inl (ThrownValue (JsError None)))
              (Inr response_200)) \<noteq> Inl ThrownUndefined"
    by (simp_all add: sample_browser_simps)
  have a: "testApi_invocation all_settle (browser_with (Inr (Some ''tok'')) (Inr response_200))
     ''/user/me'' initial_state =
     (Resolved,
      \<lparr>loading = False,
       response = Some \<lparr>success = True, data = Some (JArray []), error = None\<rparr>,
       endpoint = ''/user/test-auth''\<rparr>,
      [SetLoading True, SetResponse None, GetToken,
       Fetch (fetch_call (browser_with (Inr (Some ''tok'')) (Inr response_200))
                ''/user/me'' ''tok''),
       ResponseJson,
       SetResponse (Some \<lparr>success = True, data = Some (JArray []), error = None\<rparr>),
       SetLoading False])"
    by (simp add: all_settle_invocation run_200 initial_state_def)
  have t: "testApi_try (browser_with (Inl (ThrownValue (JsError None))) (Inr response_200))
       ''/user/me'' = (Inl (ThrownValue (JsError None)), [GetToken])"
    by (simp add: try_getToken_rejects sample_browser_simps)
  have m: "message (JsError None) = None" by simp
  note T = testApi_invocation_resolves [OF s n3 n4, of "''/user/me''" initial_state]
  from T obtain r where r: "response (fst (snd (testApi_invocation all_settle
           (browser_with (Inl (ThrownValue (JsError None))) (Inr response_200))
           ''/user/me'' initial_state))) = Some r"
    and c: "\<forall>e events.
         testApi_try (browser_with (Inl (ThrownValue (JsError None))) (Inr response_200))
           ''/user/me'' = (Inl (ThrownValue e), events) \<longrightarrow>
         (message e = None \<or> message e = Some [] \<longrightarrow>
            error r = Some ''Unknown error occurred'') \<and>
         (\<forall>m. message e = Some m \<and> m \<noteq> [] \<longrightarrow> error r = Some m)"
    by (elim conjE exE)
  from c [rule_format, OF t] m have e: "error r = Some ''Unknown error occurred''"
    by simp
  from r have "\<not> success r" by (auto simp: all_settle_invocation run_no_message)
  with r e have b: "\<exists>r. response (fst (snd (testApi_invocation all_settle
           (browser_with (Inl (ThrownValue (JsError None))) (Inr response_200))
           ''/user/me'' initial_state))) = Some r \<and>
        \<not> success r \<and> error r = Some ''Unknown error occurred''"
    by (intro exI conjI)
  from s n1 n2 a t m T [THEN conjunct1] b show ?thesis by (intro conjI)
qed

text \<open>
  Claim C9 says that testApi never throws and that every invocation ends with \<open>loading\<close>
  false and \<open>response\<close> set. When \<^verbatim>\<open>getToken\<close> rejects with null, reading
  \<^verbatim>\<open>error.message\<close> in the \<^verbatim>\<open>catch\<close> block throws: testApi rejects with a TypeError and
  \<open>response\<close> stays null. When the promise of \<^verbatim>\<open>fetch\<close> never settles, the invocation
  never ends: \<open>loading\<close> stays true and \<open>response\<close> stays null.
\<close>

theorem testApi_rejects_or_stays_pending:
  "useAuth_getToken (browser_with (Inl ThrownNull) (Inr response_200)) = Inl ThrownNull \<and>
   testApi_invocation all_settle (browser_with (Inl ThrownNull) (Inr response_200))
     ''/user/me'' initial_state =
     (Rejected (TypeError_reading_message ''null''),
      \<lparr>loading = False, response = None, endpoint = ''/user/test-auth''\<rparr>,
      [SetLoading True, SetResponse None, GetToken, SetLoading False]) \<and>
   testApi_invocation fetch_hangs (browser_with (Inr (Some ''tok'')) (Inr response_200))
     ''/user/me'' initial_state =
     (Pending,
      \<lparr>loading = True, response = None, endpoint = ''/user/test-auth''\<rparr>,
      [SetLoading True, SetResponse None, GetToken,
       Fetch (fetch_call (browser_with (Inr (Some ''tok'')) (Inr response_200))
                ''/user/me'' ''tok'')])"
proof -
  have a: "testApi_invocation all_settle (browser_with (Inl ThrownNull) (Inr response_200))
     ''/user/me'' initial_state =
     (Rejected (TypeError_reading_message ''null''),
      \<lparr>loading = False, response = None, endpoint = ''/user/test-auth''\<rparr>,
      [SetLoading True, SetResponse None, GetToken, SetLoading False])"
    by (simp add: all_settle_invocation run_null initial_state_def)
  have b: "testApi_invocation fetch_hangs (browser_with (Inr (Some ''tok'')) (Inr response_200))
     ''/user/me'' initial_state =
     (Pending,
      \<lparr>loading = True, response = None, endpoint = ''/user/test-auth''\<rparr>,
      [SetLoading True, SetResponse None, GetToken,
       Fetch (fetch_call (browser_with (Inr (Some ''tok'')) (Inr response_200))
                ''/user/me'' ''tok'')])"
    by (simp add: testApi_invocation_def run_200 initial_state_def)
  from a b show ?thesis by (simp add: sample_browser_simps)
qed

text \<open>
  Claim C5 says that every 2xx response makes the client surface the parsed payload with
  \<open>success = true\<close>. A 204 response has an empty body, \<^verbatim>\<open>response.json()\<close> rejects,
  and the client ends in the error state.
\<close>

theorem testApi_2xx_unparsable_body:
  "ok response_204 \<and>
   fetch (browser_with (Inr (Some ''tok'')) (Inr response_204))
     (fetch_call (browser_with (Inr (Some ''tok'')) (Inr response_204)) ''/user/me'' ''tok'') =
     Inr response_204 \<and>
   response (fst (snd (testApi (browser_with (Inr (Some ''tok'')) (Inr response_204))
     ''/user/me'' initial_state))) =
     Some \<lparr>success = False, data = None, error = Some ''Unexpected end of JSON input''\<rparr>"
  by (simp add: run_204 sample_responses sample_browser_simps)

text \<open>
  Claim C5, amended. For every HTTP response received by testApi: if the status is non-2xx
  the client ends in an error state (\<open>success = false\<close> with a non-empty error message);
  if the status is 2xx and the body parses as JSON the client surfaces the parsed payload
  (\<open>success = true\<close> with \<open>data\<close> the parsed body); if the status is 2xx and the body does
  not parse, the client ends in an error state carrying the parser's message.
\<close>

theorem testApi_surfaces_response:
  assumes tok: "useAuth_getToken env = Inr (Some token)" "token \<noteq> []"
    and resp: "fetch env (fetch_call env ep token) = Inr resp"
  shows "(\<not> ok resp \<longrightarrow>
            (\<exists>msg. msg \<noteq> [] \<and>
               response (fst (snd (testApi env ep st))) =
                 Some \<lparr>success = False, data = None, error = Some msg\<rparr>)) \<and>
         (ok resp \<longrightarrow>
            (\<forall>d. json_result resp = Inr d \<longrightarrow>
               response (fst (snd (testApi env ep st))) =
                 Some \<lparr>success = True, data = Some d, error = None\<rparr>) \<and>
            (\<forall>e. json_result resp = Inl e \<longrightarrow>
               response (fst (snd (testApi env ep st))) =
                 Some \<lparr>success = False, data = None,
                       error = Some (or_else (message e) ''Unknown error occurred'')\<rparr>))"
proof (cases "ok resp")
  case False
  obtain e where t: "testApi_try env ep =
      (Inl (ThrownValue e), [GetToken, Fetch (fetch_call env ep token), ResponseText])"
    using try_not_ok [OF tok resp False] by (cases "text_result resp") simp_all
  have "or_else (message e) ''Unknown error occurred'' \<noteq> []"
    by (rule or_else_nonempty) simp
  with False show ?thesis by (simp add: testApi_caught [OF t])
next
  case True
  note t = try_ok [OF tok resp True]
  show ?thesis
  proof (cases "json_result resp")
    case (Inl e)
    with t have "testApi_try env ep =
        (Inl (ThrownValue e), [GetToken, Fetch (fetch_call env ep token), ResponseJson])"
      by simp
    from testApi_caught [OF this] True Inl show ?thesis by simp
  next
    case (Inr d)
    with t have "testApi_try env ep =
        (Inr d, [GetToken, Fetch (fetch_call env ep token), ResponseJson])" by simp
    from testApi_success [OF this] True Inr show ?thesis by simp
  qed
qed

text \<open>
  The theorem at a 200 response with a JSON body and at a 401 response.
\<close>

theorem testApi_surfaces_response_witness:
  "useAuth_getToken (browser_with (Inr (Some ''tok'')) (Inr response_200)) = Inr (Some ''tok'') \<and>
   ''tok'' \<noteq> [] \<and>
   fetch (browser_with (Inr (Some ''tok'')) (Inr response_200))
     (fetch_call (browser_with (Inr (Some ''tok'')) (Inr response_200)) ''/user/me'' ''tok'') =
     Inr response_200 \<and>
   ok response_200 \<and> json_result response_200 = Inr (JArray []) \<and>
   response (fst (snd (testApi (browser_with (Inr (Some ''tok'')) (Inr response_200))
     ''/user/me'' initial_state))) =
     Some \<lparr>success = True, data = Some (JArray []), error = None\<rparr> \<and>
   \<not> ok response_401 \<and>
   (\<exists>msg. msg \<noteq> [] \<and>
      response (fst (snd (testApi (browser_with (Inr (Some ''tok'')) (Inr response_401))
        ''/user/me'' initial_state))) =
        Some \<lparr>success = False, data = None, error = Some msg\<rparr>)"
proof -
  have h: "useAuth_getToken (browser_with (Inr (Some ''tok'')) reply) = Inr (Some ''tok'')"
      "''tok'' \<noteq> []"
      "fetch (browser_with (Inr (Some ''tok'')) reply)
         (fetch_call (browser_with (Inr (Some ''tok'')) reply) ''/user/me'' ''tok'') = reply"
    for reply
    by (simp_all add: sample_browser_simps)
  have j: "json_result response_200 = Inr (JArray [])"
    by (simp add: response_200_def)
  note T200 = testApi_surfaces_response [OF h, of response_200 initial_state]
  note T401 = testApi_surfaces_response [OF h, of response_401 initial_state]
  from T200 [THEN conjunct2, THEN mp, OF sample_responses(1), THEN conjunct1, rule_format, OF j]
  have a: "response (fst (snd (testApi (browser_with (Inr (Some ''tok'')) (Inr response_200))
     ''/user/me'' initial_state))) =
     Some \<lparr>success = True, data = Some (JArray []), error = None\<rparr>" .
  from T401 [THEN conjunct1, THEN mp, OF sample_responses(2)]
  have b: "\<exists>msg. msg \<noteq> [] \<and>
      response (fst (snd (testApi (browser_with (Inr (Some ''tok'')) (Inr response_401))
        ''/user/me'' initial_state))) =
        Some \<lparr>success = False, data = None, error = Some msg\<rparr>" .
  from a b j sample_responses h(1) [of "Inr response_200"] h(2) h(3) [of "Inr response_200"]
  show ?thesis
    by (intro conjI) assumption+
qed

lemma endpoints_paths: "map path endpoints = endpoint_paths"
  by (simp add: endpoints_def endpoint_paths_def)

lemma ui_step_endpoint:
  assumes "endpoint st \<in> set endpoint_paths"
  shows "endpoint (ui_step st a) \<in> set endpoint_paths"
proof (cases a)
  case (SelectOption i)
  show ?thesis
  proof (cases "i < length endpoints")
    case True
    then have "path (endpoints ! i) \<in> set (map path endpoints)"
      by (metis length_map nth_map nth_mem)
    with True SelectOption show ?thesis by (simp add: endpoints_paths)
  next
    case False
    with SelectOption assms show ?thesis by simp
  qed
next
  case (ClickTest env)
  with assms show ?thesis by (simp add: testApi_endpoint)
qed

lemma ui_foldl_endpoint:
  "endpoint st \<in> set endpoint_paths \<Longrightarrow>
     endpoint (foldl ui_step st actions) \<in> set endpoint_paths"
  by (induction actions arbitrary: st) (simp_all add: ui_step_endpoint)

lemma ui_run_endpoint: "endpoint (ui_run actions) \<in> set endpoint_paths"
  unfolding ui_run_def
  by (rule ui_foldl_endpoint) (simp add: initial_state_def endpoint_paths_def)

lemma ui_select:
  "endpoint (ui_run [SelectOption 0]) = ''/user/test-auth''"
  "endpoint (ui_run [SelectOption 1]) = ''/user/me''"
  "endpoint (ui_run [SelectOption 2]) = ''/user/tasks''"
  "endpoint (ui_run [SelectOption 3]) = ''/user/briefings''"
  "endpoint (ui_run [SelectOption 4]) = ''/user/sessions''"
  by (simp_all add: ui_run_def endpoints_def)

lemma ui_selectable:
  "\<forall>p \<in> set endpoint_paths. \<exists>i. endpoint (ui_run [SelectOption i]) = p"
  unfolding endpoint_paths_def
  using ui_select by (simp del: ui_step.simps) blast

lemma testApi_fetch_shape:
  assumes "Fetch c \<in> set (snd (snd (testApi env ep st)))"
  shows "fetch_method c = ''GET'' \<and> fetch_input c = web_apiBaseUrl env @ ep \<and>
         (\<exists>token. useAuth_getToken env = Inr (Some token) \<and>
            map_of (fetch_headers c) ''Authorization'' = Some (''Bearer '' @ token))"
proof -
  from assms have "Fetch c \<in> set (filter is_fetch (snd (snd (testApi env ep st))))"
    by simp
  then have "Fetch c \<in> set (case useAuth_getToken env of
        Inr (Some token) \<Rightarrow> if token = [] then [] else [Fetch (fetch_call env ep token)]
      | other \<Rightarrow> [])"
    by (simp only: testApi_fetches try_fetches)
  then have "\<exists>token. useAuth_getToken env = Inr (Some token) \<and> c = fetch_call env ep token"
    by (cases "useAuth_getToken env") (auto split: option.splits if_splits)
  then show ?thesis by (auto simp: fetch_call_def)
qed

text \<open>
  Claim C4. Every request testApi sends for an endpoint is a GET to the concatenation of
  the API base URL (\<^verbatim>\<open>VITE_API_BASE_URL\<close>, or \<^verbatim>\<open>http://localhost:8000\<close> when that is
  unset or empty) and the endpoint, with the header \<^verbatim>\<open>Authorization: Bearer <token>\<close>.
  The options of the selector are exactly the five paths \<^verbatim>\<open>/user/test-auth\<close>,
  \<^verbatim>\<open>/user/me\<close>, \<^verbatim>\<open>/user/tasks\<close>, \<^verbatim>\<open>/user/briefings\<close> and \<^verbatim>\<open>/user/sessions\<close>;
  after any sequence of user actions the selected endpoint is one of them, and each of
  them can be selected.
\<close>

theorem testApi_request_and_endpoints:
  "(\<forall>c. Fetch c \<in> set (snd (snd (testApi env ep st))) \<longrightarrow>
      fetch_method c = ''GET'' \<and> fetch_input c = web_apiBaseUrl env @ ep \<and>
      (\<exists>token. useAuth_getToken env = Inr (Some token) \<and>
         map_of (fetch_headers c) ''Authorization'' = Some (''Bearer '' @ token))) \<and>
   web_apiBaseUrl env =
     (case VITE_API_BASE_URL env of
        None \<Rightarrow> ''http://localhost:8000''
      | Some u \<Rightarrow> if u = [] then ''http://localhost:8000'' else u) \<and>
   map path endpoints = endpoint_paths \<and>
   endpoint (ui_run actions) \<in> set endpoint_paths \<and>
   (\<forall>p \<in> set endpoint_paths. \<exists>i. endpoint (ui_run [SelectOption i]) = p)"
proof -
  have a: "\<forall>c. Fetch c \<in> set (snd (snd (testApi env ep st))) \<longrightarrow>
      fetch_method c = ''GET'' \<and> fetch_input c = web_apiBaseUrl env @ ep \<and>
      (\<exists>token. useAuth_getToken env = Inr (Some token) \<and>
         map_of (fetch_headers c) ''Authorization'' = Some (''Bearer '' @ token))"
    using testApi_fetch_shape by (intro allI impI)
  have b: "web_apiBaseUrl env =
     (case VITE_API_BASE_URL env of
        None \<Rightarrow> ''http://localhost:8000''
      | Some u \<Rightarrow> if u = [] then ''http://localhost:8000'' else u)"
    by (simp add: web_apiBaseUrl_def or_else_def)
  from a b endpoints_paths ui_run_endpoint [of actions] ui_selectable show ?thesis
    by (intro conjI)
qed

text \<open>
  The theorem at a call for \<^verbatim>\<open>/user/tasks\<close>, and at a sequence of actions that selects it.
\<close>

theorem testApi_request_and_endpoints_witness:
  "Fetch (fetch_call (browser_with (Inr (Some ''tok'')) (Inr response_200)) ''/user/tasks'' ''tok'')
     \<in> set (snd (snd (testApi (browser_with (Inr (Some ''tok'')) (Inr response_200))
              ''/user/tasks'' initial_state))) \<and>
   fetch_method (fetch_call (browser_with (Inr (Some ''tok'')) (Inr response_200))
     ''/user/tasks'' ''tok'') = ''GET'' \<and>
   fetch_input (fetch_call (browser_with (Inr (Some ''tok'')) (Inr response_200))
     ''/user/tasks'' ''tok'') = ''http://localhost:8000/user/tasks'' \<and>
   map_of (fetch_headers (fetch_call (browser_with (Inr (Some ''tok'')) (Inr response_200))
     ''/user/tasks'' ''tok'')) ''Authorization'' = Some ''Bearer tok'' \<and>
   ''/user/tasks'' \<in> set endpoint_paths \<and>
   endpoint (ui_run [SelectOption 2, ClickTest (browser_with (Inr (Some ''tok''))
     (Inr response_200)), SelectOption 7]) = ''/user/tasks''"
proof -
  note T = testApi_request_and_endpoints
    [of "browser_with (Inr (Some ''tok'')) (Inr response_200)" "''/user/tasks''" initial_state
        "[SelectOption 2, ClickTest (browser_with (Inr (Some ''tok'')) (Inr response_200)),
          SelectOption 7]"]
  have m: "Fetch (fetch_call (browser_with (Inr (Some ''tok'')) (Inr response_200))
       ''/user/tasks'' ''tok'')
     \<in> set (snd (snd (testApi (browser_with (Inr (Some ''tok'')) (Inr response_200))
              ''/user/tasks'' initial_state)))"
    by (simp add: run_200)
  from T [THEN conjunct1, rule_format, OF m]
  have g: "fetch_method (fetch_call (browser_with (Inr (Some ''tok'')) (Inr response_200))
     ''/user/tasks'' ''tok'') = ''GET''"
    and i: "fetch_input (fetch_call (browser_with (Inr (Some ''tok'')) (Inr response_200))
     ''/user/tasks'' ''tok'') = ''http://localhost:8000/user/tasks''"
    by (simp_all add: sample_browser_simps)
  have h: "map_of (fetch_headers (fetch_call (browser_with (Inr (Some ''tok'')) (Inr response_200))
     ''/user/tasks'' ''tok'')) ''Authorization'' = Some ''Bearer tok''"
    by (simp add: fetch_call_def)
  have e: "endpoint (ui_run [SelectOption 2, ClickTest (browser_with (Inr (Some ''tok''))
     (Inr response_200)), SelectOption 7]) = ''/user/tasks''"
    by (simp add: ui_run_def endpoints_def initial_state_def testApi_endpoint)
  from T e have p: "''/user/tasks'' \<in> set endpoint_paths"
    by (simp only: )
  from m g i h p e show ?thesis by (intro conjI)
qed


lemma testApi_at_most_one_fetch:
  "length (filter is_fetch (snd (snd (testApi env ep st)))) \<le> 1"
  by (simp only: testApi_fetches try_fetches)
     (simp split: sum.splits option.splits)

lemma fetchConnectionDetails_at_most_one_request:
  "length (filter is_request (snd (fetchConnectionDetails svc env room participant))) \<le> 1"
proof (cases "getClerkSessionToken env")
  case None
  then show ?thesis by (simp add: fetchConnectionDetails_no_token)
next
  case (Some tok)
  then show ?thesis
    by (simp add: fetchConnectionDetails_token [OF Some] backend_requests)
qed

text \<open>
  Claim C7. One invocation of testApi performs at most one \<^verbatim>\<open>fetch\<close>, and one
  invocation of fetchConnectionDetails performs at most one POST; no request is repeated
  within an invocation.
\<close>

theorem one_request_per_invocation:
  "length (filter is_fetch (snd (snd (testApi webenv ep st)))) \<le> 1 \<and>
   distinct (filter is_fetch (snd (snd (testApi webenv ep st)))) \<and>
   length (filter is_request (snd (fetchConnectionDetails svc env room participant))) \<le> 1 \<and>
   distinct (filter is_request (snd (fetchConnectionDetails svc env room participant)))"
proof -
  have d: "length xs \<le> 1 \<Longrightarrow> distinct xs" for xs :: "'a list"
    by (cases xs) simp_all
  from testApi_at_most_one_fetch [of webenv ep st]
    fetchConnectionDetails_at_most_one_request [of svc env room participant]
  show ?thesis by (simp add: d)
qed

text \<open>
  The theorem at two successful invocations, each of which sends exactly one request.
\<close>

theorem one_request_per_invocation_witness:
  "filter is_fetch (snd (snd (testApi (browser_with (Inr (Some ''tok'')) (Inr response_200))
      ''/user/me'' initial_state))) =
     [Fetch (fetch_call (browser_with (Inr (Some ''tok'')) (Inr response_200)) ''/user/me'' ''tok'')] \<and>
   filter is_request (snd (fetchConnectionDetails sample_service platform_ok ''my-room'' ''me'')) =
     [URLSessionData (request_for sample_service ''jwt-1'')] \<and>
   length (filter is_fetch (snd (snd (testApi (browser_with (Inr (Some ''tok'')) (Inr response_200))
      ''/user/me'' initial_state)))) \<le> 1 \<and>
   length (filter is_request
      (snd (fetchConnectionDetails sample_service platform_ok ''my-room'' ''me''))) \<le> 1"
proof -
  note T = one_request_per_invocation
    [of "browser_with (Inr (Some ''tok'')) (Inr response_200)" "''/user/me''" initial_state
        sample_service platform_ok "''my-room''" "''me''"]
  have a: "filter is_fetch (snd (snd (testApi (browser_with (Inr (Some ''tok'')) (Inr response_200))
      ''/user/me'' initial_state))) =
     [Fetch (fetch_call (browser_with (Inr (Some ''tok'')) (Inr response_200)) ''/user/me'' ''tok'')]"
    by (simp add: run_200)
  have b: "filter is_request
      (snd (fetchConnectionDetails sample_service platform_ok ''my-room'' ''me'')) =
     [URLSessionData (request_for sample_service ''jwt-1'')]"
    by (simp add: sample_run)
  from a b T [THEN conjunct1] T [THEN conjunct2, THEN conjunct2, THEN conjunct1]
  show ?thesis by (intro conjI)
qed

text \<open>How many error messages an invocation of testApi sets.\<close>

lemma testApi_caught_messages:
  assumes "testApi_try env ep = (Inl (ThrownValue e), events)"
  shows "filter is_error_message (snd (snd (testApi env ep st))) =
           [SetResponse (Some \<lparr>success = False, data = None,
              error = Some (or_else (message e) ''Unknown error occurred'')\<rparr>)]"
proof -
  from try_sets_nothing [of env ep] assms have "filter is_error_message events = []"
    by simp
  then show ?thesis by (simp add: testApi_caught [OF assms])
qed

lemma testApi_caught_response:
  assumes "testApi_try env ep = (Inl (ThrownValue e), events)"
  shows "response (fst (snd (testApi env ep st))) =
           Some \<lparr>success = False, data = None,
                 error = Some (or_else (message e) ''Unknown error occurred'')\<rparr>"
  by (simp add: testApi_caught [OF assms])

lemma testApi_error_once:
  assumes "testApi_try env ep = (Inl (ThrownValue e), events)"
  shows "\<exists>msg. msg \<noteq> [] \<and>
           response (fst (snd (testApi env ep st))) =
             Some \<lparr>success = False, data = None, error = Some msg\<rparr> \<and>
           filter is_error_message (snd (snd (testApi env ep st))) =
             [SetResponse (Some \<lparr>success = False, data = None, error = Some msg\<rparr>)]"
proof -
  have "or_else (message e) ''Unknown error occurred'' \<noteq> []"
    by (rule or_else_nonempty) simp
  with testApi_caught_messages [OF assms, of st] testApi_caught_response [OF assms, of st]
  show ?thesis by blast
qed

lemma testApi_one_fetch:
  "useAuth_getToken env = Inr (Some token) \<Longrightarrow> token \<noteq> [] \<Longrightarrow>
     filter is_fetch (snd (snd (testApi env ep st))) = [Fetch (fetch_call env ep token)]"
  by (simp add: testApi_fetches try_fetches)

text \<open>
  Claim C2, amended. For every HTTP response with a non-2xx status and for every transport
  failure, each client produces exactly one error and sends its request once, with no
  retry or backoff before surfacing it. The web client sets \<open>response\<close> once, to
  \<open>{success: false, error}\<close> with a non-empty message. The iOS client throws a single
  error: for a non-2xx status a \<open>TokenServiceError.backendError\<close> whose description is
  \<^verbatim>\<open>Backend error: HTTP <status>: <body>\<close>; for a transport failure the transport's own
  error, rethrown as it is, which is not a \<open>TokenServiceError\<close>.
\<close>

theorem errors_surface_once_without_retry:
  "(\<forall>token resp.
      useAuth_getToken webenv = Inr (Some token) \<and> token \<noteq> [] \<and>
      fetch webenv (fetch_call webenv ep token) = Inr resp \<and> \<not> ok resp \<longrightarrow>
        (\<exists>msg. msg \<noteq> [] \<and>
           response (fst (snd (testApi webenv ep st))) =
             Some \<lparr>success = False, data = None, error = Some msg\<rparr> \<and>
           filter is_error_message (snd (snd (testApi webenv ep st))) =
             [SetResponse (Some \<lparr>success = False, data = None, error = Some msg\<rparr>)]) \<and>
        filter is_fetch (snd (snd (testApi webenv ep st))) =
          [Fetch (fetch_call webenv ep token)]) \<and>
   (\<forall>token e.
      useAuth_getToken webenv = Inr (Some token) \<and> token \<noteq> [] \<and>
      fetch webenv (fetch_call webenv ep token) = Inl e \<longrightarrow>
        (\<exists>msg. msg \<noteq> [] \<and>
           response (fst (snd (testApi webenv ep st))) =
             Some \<lparr>success = False, data = None, error = Some msg\<rparr> \<and>
           filter is_error_message (snd (snd (testApi webenv ep st))) =
             [SetResponse (Some \<lparr>success = False, data = None, error = Some msg\<rparr>)]) \<and>
        filter is_fetch (snd (snd (testApi webenv ep st))) =
          [Fetch (fetch_call webenv ep token)]) \<and>
   (\<forall>dat code.
      url_parses env (url (request_for svc tok)) \<and>
      urlsession_data env (request_for svc tok) = Inr (dat, HTTPURLResponse code) \<and>
      \<not> (200 \<le> code \<and> code \<le> 299) \<longrightarrow>
        (\<exists>msg. fetchConnectionDetailsFromBackend svc env tok =
                 (Throws (ServiceError (backendError msg)),
                  [URLSessionData (request_for svc tok)]) \<and>
               errorDescription (backendError msg) =
                 ''Backend error: HTTP '' @ show_int code @ '': '' @
                 (case string_utf8 env dat of Some s \<Rightarrow> s | None \<Rightarrow> ''Unknown error''))) \<and>
   (\<forall>e.
      url_parses env (url (request_for svc tok)) \<and>
      urlsession_data env (request_for svc tok) = Inl e \<longrightarrow>
        fetchConnectionDetailsFromBackend svc env tok =
          (Throws (TransportError e), [URLSessionData (request_for svc tok)]))"
proof (intro conjI allI impI; (elim conjE)?)
  fix token resp
  assume tok: "useAuth_getToken webenv = Inr (Some token)" "token \<noteq> []"
    and resp: "fetch webenv (fetch_call webenv ep token) = Inr resp" "\<not> ok resp"
  obtain e where "testApi_try webenv ep =
      (Inl (ThrownValue e), [GetToken, Fetch (fetch_call webenv ep token), ResponseText])"
    using try_not_ok [OF tok resp] by (cases "text_result resp") simp_all
  from testApi_error_once [OF this]
  show "\<exists>msg. msg \<noteq> [] \<and>
           response (fst (snd (testApi webenv ep st))) =
             Some \<lparr>success = False, data = None, error = Some msg\<rparr> \<and>
           filter is_error_message (snd (snd (testApi webenv ep st))) =
             [SetResponse (Some \<lparr>success = False, data = None, error = Some msg\<rparr>)]" .
  from testApi_one_fetch [OF tok]
  show "filter is_fetch (snd (snd (testApi webenv ep st))) = [Fetch (fetch_call webenv ep token)]" .
next
  fix token e
  assume tok: "useAuth_getToken webenv = Inr (Some token)" "token \<noteq> []"
    and rej: "fetch webenv (fetch_call webenv ep token) = Inl e"
  from testApi_error_once [OF try_fetch_rejects [OF tok rej]]
  show "\<exists>msg. msg \<noteq> [] \<and>
           response (fst (snd (testApi webenv ep st))) =
             Some \<lparr>success = False, data = None, error = Some msg\<rparr> \<and>
           filter is_error_message (snd (snd (testApi webenv ep st))) =
             [SetResponse (Some \<lparr>success = False, data = None, error = Some msg\<rparr>)]" .
  from testApi_one_fetch [OF tok]
  show "filter is_fetch (snd (snd (testApi webenv ep st))) = [Fetch (fetch_call webenv ep token)]" .
next
  fix dat code
  assume "url_parses env (url (request_for svc tok))"
    "urlsession_data env (request_for svc tok) = Inr (dat, HTTPURLResponse code)"
    "\<not> (200 \<le> code \<and> code \<le> 299)"
  from backend_non_2xx [OF this]
  show "\<exists>msg. fetchConnectionDetailsFromBackend svc env tok =
                 (Throws (ServiceError (backendError msg)),
                  [URLSessionData (request_for svc tok)]) \<and>
               errorDescription (backendError msg) =
                 ''Backend error: HTTP '' @ show_int code @ '': '' @
                 (case string_utf8 env dat of Some s \<Rightarrow> s | None \<Rightarrow> ''Unknown error'')"
    by simp
next
  fix e
  assume "url_parses env (url (request_for svc tok))"
    "urlsession_data env (request_for svc tok) = Inl e"
  from backend_transport_failure [OF this]
  show "fetchConnectionDetailsFromBackend svc env tok =
          (Throws (TransportError e), [URLSessionData (request_for svc tok)])" .
qed


lemma show_int_404: "show_int 404 = ''404''"
  by code_simp

text \<open>
  The theorem at a 401 and a failed fetch in the browser, and at a 404 and an offline
  transport on iOS.
\<close>

theorem errors_surface_once_without_retry_witness:
  "(\<exists>msg. msg \<noteq> [] \<and>
      response (fst (snd (testApi (browser_with (Inr (Some ''tok'')) (Inr response_401))
        ''/user/me'' initial_state))) =
        Some \<lparr>success = False, data = None, error = Some msg\<rparr> \<and>
      filter is_error_message (snd (snd (testApi (browser_with (Inr (Some ''tok''))
        (Inr response_401)) ''/user/me'' initial_state))) =
        [SetResponse (Some \<lparr>success = False, data = None, error = Some msg\<rparr>)]) \<and>
   filter is_fetch (snd (snd (testApi (browser_with (Inr (Some ''tok'')) (Inr response_401))
     ''/user/me'' initial_state))) =
     [Fetch (fetch_call (browser_with (Inr (Some ''tok'')) (Inr response_401))
        ''/user/me'' ''tok'')] \<and>
   (\<exists>msg. msg \<noteq> [] \<and>
      response (fst (snd (testApi (browser_with (Inr (Some ''tok''))
        (Inl (JsError (Some ''Failed to fetch'')))) ''/user/me'' initial_state))) =
        Some \<lparr>success = False, data = None, error = Some msg\<rparr> \<and>
      filter is_error_message (snd (snd (testApi (browser_with (Inr (Some ''tok''))
        (Inl (JsError (Some ''Failed to fetch'')))) ''/user/me'' initial_state))) =
        [SetResponse (Some \<lparr>success = False, data = None, error = Some msg\<rparr>)]) \<and>
   (\<exists>msg. fetchConnectionDetailsFromBackend sample_service platform_404 ''jwt-1'' =
        (Throws (ServiceError (backendError msg)),
         [URLSessionData (request_for sample_service ''jwt-1'')]) \<and>
      errorDescription (backendError msg) = ''Backend error: HTTP 404: Not Found'') \<and>
   fetchConnectionDetailsFromBackend sample_service platform_offline ''jwt-1'' =
     (Throws (TransportError (URLError ''offline'')),
      [URLSessionData (request_for sample_service ''jwt-1'')])"
proof -
  note T1 = errors_surface_once_without_retry
    [of "browser_with (Inr (Some ''tok'')) (Inr response_401)" "''/user/me''" initial_state
        platform_404 sample_service "''jwt-1''"]
  note T2 = errors_surface_once_without_retry
    [of "browser_with (Inr (Some ''tok'')) (Inl (JsError (Some ''Failed to fetch'')))"
        "''/user/me''" initial_state platform_offline sample_service "''jwt-1''"]
  have p1: "useAuth_getToken (browser_with (Inr (Some ''tok'')) (Inr response_401)) =
              Inr (Some ''tok'') \<and> ''tok'' \<noteq> [] \<and>
            fetch (browser_with (Inr (Some ''tok'')) (Inr response_401))
              (fetch_call (browser_with (Inr (Some ''tok'')) (Inr response_401))
                 ''/user/me'' ''tok'') = Inr response_401 \<and>
            \<not> ok response_401"
    by (simp add: sample_browser_simps sample_responses)
  have p2: "useAuth_getToken (browser_with (Inr (Some ''tok''))
              (Inl (JsError (Some ''Failed to fetch'')))) = Inr (Some ''tok'') \<and>
            ''tok'' \<noteq> [] \<and>
            fetch (browser_with (Inr (Some ''tok'')) (Inl (JsError (Some ''Failed to fetch''))))
              (fetch_call (browser_with (Inr (Some ''tok''))
                 (Inl (JsError (Some ''Failed to fetch'')))) ''/user/me'' ''tok'') =
              Inl (JsError (Some ''Failed to fetch''))"
    by (simp add: sample_browser_simps)
  have p3: "url_parses platform_404 (url (request_for sample_service ''jwt-1'')) \<and>
            urlsession_data platform_404 (request_for sample_service ''jwt-1'') =
              Inr (''Not Found'', HTTPURLResponse 404) \<and>
            \<not> (200 \<le> (404::int) \<and> (404::int) \<le> 299)"
    by (simp add: platform_404_def platform_with_simps)
  have p4: "url_parses platform_offline (url (request_for sample_service ''jwt-1'')) \<and>
            urlsession_data platform_offline (request_for sample_service ''jwt-1'') =
              Inl (URLError ''offline'')"
    by (simp add: platform_offline_def platform_with_simps)
  note c1 = T1 [THEN conjunct1, rule_format, OF p1]
  note c2 = T2 [THEN conjunct2, THEN conjunct1, rule_format, OF p2]
  note c3 = T1 [THEN conjunct2, THEN conjunct2, THEN conjunct1, rule_format, OF p3]
  note c4 = T2 [THEN conjunct2, THEN conjunct2, THEN conjunct2, rule_format, OF p4]
  have d: "string_utf8 platform_404 ''Not Found'' = Some ''Not Found''"
    by (simp add: platform_404_def platform_with_simps)
  from c3 have c3': "\<exists>msg. fetchConnectionDetailsFromBackend sample_service platform_404 ''jwt-1'' =
        (Throws (ServiceError (backendError msg)),
         [URLSessionData (request_for sample_service ''jwt-1'')]) \<and>
      errorDescription (backendError msg) = ''Backend error: HTTP 404: Not Found''"
    by (simp add: show_int_404 d)
  from c1 [THEN conjunct1] c1 [THEN conjunct2] c2 [THEN conjunct1] c3' c4
  show ?thesis by (intro conjI)
qed

text \<open>
  Claim C2 says that on a transport failure the iOS client throws a
  \<open>TokenServiceError\<close>. The error of \<^verbatim>\<open>URLSession.shared.data(for:)\<close> passes through
  \<^verbatim>\<open>try await\<close> unchanged: what the caller receives is the transport's error.
\<close>

theorem transport_failure_is_not_a_service_error:
  "url_parses platform_offline (url (request_for sample_service ''jwt-1'')) \<and>
   urlsession_data platform_offline (request_for sample_service ''jwt-1'') =
     Inl (URLError ''offline'') \<and>
   fetchConnectionDetailsFromBackend sample_service platform_offline ''jwt-1'' =
     (Throws (TransportError (URLError ''offline'')),
      [URLSessionData (request_for sample_service ''jwt-1'')]) \<and>
   \<not> throws_service_error
       (fst (fetchConnectionDetailsFromBackend sample_service platform_offline ''jwt-1''))"
proof -
  have p: "url_parses platform_offline (url (request_for sample_service ''jwt-1''))"
    and q: "urlsession_data platform_offline (request_for sample_service ''jwt-1'') =
              Inl (URLError ''offline'')"
    by (simp_all add: platform_offline_def platform_with_simps)
  from backend_transport_failure [OF p q] p q show ?thesis by simp
qed

end
